theory Spec2Isabelle
  imports Main "HOL-Library.Sublist"
begin

section \<open>Python values and the exceptions of the module\<close>

text \<open>
  The records exchanged with the Arvados API are decoded JSON documents: Python dicts with
  string keys whose values are \<open>None\<close>, booleans, integers, strings, lists and dicts again.
  A dict is an association list in insertion order with distinct keys.
\<close>

datatype pyval =
    PNone
  | PBool bool
  | PInt int
  | PStr string
  | PList "pyval list"
  | PDict "(string \<times> pyval) list"

text \<open>
  Every exception the module can raise or meet. The two \<open>raise Exception(f"...")\<close>
  statements carry the values formatted into their message.
\<close>

datatype pyerr =
    KeyError string
  | IndexError
  | TypeError
  | AttributeError string
  | ApiError
  | IOError
  | UnicodeDecodeError
  | UnknownTaskState pyval
  | CollectionNotFound string pyval

text \<open>Sequencing of a computation that may raise.\<close>

definition pbind :: "pyerr + 'a \<Rightarrow> ('a \<Rightarrow> pyerr + 'b) \<Rightarrow> pyerr + 'b" where
  "pbind m f = (case m of Inl e \<Rightarrow> Inl e | Inr v \<Rightarrow> f v)"

text \<open>
  Python \<open>==\<close> on the values compared by the module. A boolean equals the integer it
  stands for (\<open>False == 0\<close>, \<open>True == 1\<close>); all other values are compared structurally.
\<close>

fun py_eq :: "pyval \<Rightarrow> pyval \<Rightarrow> bool" where
  "py_eq (PBool b) (PInt i) = ((if b then 1 else 0) = i)"
| "py_eq (PInt i) (PBool b) = (i = (if b then 1 else 0))"
| "py_eq a b = (a = b)"

text \<open>\<open>v in xs\<close> for a list \<open>xs\<close>.\<close>

definition py_in :: "pyval \<Rightarrow> pyval list \<Rightarrow> bool" where
  "py_in v xs = list_ex (\<lambda>x. py_eq x v) xs"

text \<open>\<open>obj[key]\<close> with a string key: only a dict can be subscripted that way.\<close>

fun py_getitem :: "pyval \<Rightarrow> string \<Rightarrow> pyerr + pyval" where
  "py_getitem (PDict d) k = (case map_of d k of None \<Rightarrow> Inl (KeyError k) | Some v \<Rightarrow> Inr v)"
| "py_getitem _ k = Inl TypeError"

text \<open>\<open>d[key] = v\<close>: an existing key keeps its position, a new key goes to the end.\<close>

fun dict_set :: "(string \<times> pyval) list \<Rightarrow> string \<Rightarrow> pyval \<Rightarrow> (string \<times> pyval) list" where
  "dict_set [] k v = [(k, v)]"
| "dict_set (p # ps) k v = (if fst p = k then (k, v) # ps else p # dict_set ps k v)"

fun py_setitem :: "pyval \<Rightarrow> string \<Rightarrow> pyval \<Rightarrow> pyerr + pyval" where
  "py_setitem (PDict d) k v = Inr (PDict (dict_set d k v))"
| "py_setitem _ k v = Inl TypeError"

text \<open>\<open>del d[key]\<close>.\<close>

fun py_delitem :: "pyval \<Rightarrow> string \<Rightarrow> pyerr + pyval" where
  "py_delitem (PDict d) k =
     (if k \<in> set (map fst d) then Inr (PDict (filter (\<lambda>p. fst p \<noteq> k) d)) else Inl (KeyError k))"
| "py_delitem _ k = Inl TypeError"

text \<open>
  \<open>obj.append\<close>: the attribute is looked up before the argument of the call is evaluated;
  only a list has it.
\<close>

fun py_append :: "pyval \<Rightarrow> pyerr + (pyval \<Rightarrow> pyval)" where
  "py_append (PList xs) = Inr (\<lambda>v. PList (xs @ [v]))"
| "py_append _ = Inl (AttributeError ''append'')"

section \<open>The task handle\<close>

record ArvadosTask =
  container_request :: pyval
  container :: pyval

definition to_dict :: "ArvadosTask \<Rightarrow> pyval" where
  "to_dict self = PDict [(''container_request'', container_request self),
                         (''container'', container self)]"

definition from_dict :: "pyval \<Rightarrow> pyerr + ArvadosTask" where
  "from_dict task_dict =
     pbind (py_getitem task_dict ''container_request'') (\<lambda>cr.
     pbind (py_getitem task_dict ''container'') (\<lambda>c.
       Inr \<lparr>container_request = cr, container = c\<rparr>))"

text \<open>
  The JSON object hook: \<open>obj\<close> is the dict of one decoded JSON object. The result is a task
  (\<open>Inl\<close>) or the object itself (\<open>Inr\<close>).
\<close>

definition arvados_task_decoder :: "(string \<times> pyval) list \<Rightarrow> ArvadosTask + (string \<times> pyval) list" where
  "arvados_task_decoder obj =
     (if ''container_request'' \<in> set (map fst obj) \<and> ''container'' \<in> set (map fst obj)
      then (case (map_of obj ''container_request'', map_of obj ''container'') of
              (Some cr, Some c) \<Rightarrow> Inl \<lparr>container_request = cr, container = c\<rparr>
            | _ \<Rightarrow> Inr obj)
      else Inr obj)"

section \<open>The server\<close>

text \<open>
  The Arvados server as the module sees it: one table of records per resource, the files of
  each collection (by collection identifier), a counter for the identifiers it hands out, and
  the address (the \<open>portable_data_hash\<close>) that it computes for the content of a collection.
  A listing returns the table's records in table order.
\<close>

record arv_file =
  stream_name :: string
  name :: string
  data :: string

record arvados =
  collections :: "pyval list"
  workflows :: "pyval list"
  container_requests :: "pyval list"
  containers :: "pyval list"
  keep :: "pyval \<Rightarrow> arv_file list"
  next_uuid :: nat
  content_address :: "arv_file list \<Rightarrow> string"

text \<open>\<open>get(uuid=...).execute()\<close>: the record with that identifier, or an API error (404).\<close>

definition api_get :: "pyval list \<Rightarrow> pyval \<Rightarrow> pyerr + pyval" where
  "api_get table uuid =
     (case find (\<lambda>r. py_getitem r ''uuid'' = Inr uuid) table of
        None \<Rightarrow> Inl ApiError
      | Some r \<Rightarrow> Inr r)"

section \<open>Task state\<close>

text \<open>Lines 317 to 327: the state derived from the execution record \<open>task.container\<close>.\<close>

definition container_state :: "pyval \<Rightarrow> pyerr + string" where
  "container_state c =
     pbind (py_getitem c ''exit_code'') (\<lambda>ec.
       if py_eq ec (PInt 0) then Inr ''Complete''
       else pbind (py_getitem c ''exit_code'') (\<lambda>ec.
         if py_eq ec (PInt 1) then Inr ''Failed''
         else pbind (py_getitem c ''state'') (\<lambda>s.
           if py_eq s (PStr ''Running'') then Inr ''Running''
           else pbind (py_getitem c ''state'') (\<lambda>s.
             if py_eq s (PStr ''Cancelled'') then Inr ''Cancelled''
             else pbind (py_getitem c ''state'') (\<lambda>s.
               if py_in s [PStr ''Locked'', PStr ''Queued''] then Inr ''Queued''
               else pbind (py_getitem c ''state'') (\<lambda>s. Inl (UnknownTaskState s)))))))"

text \<open>
  Lines 312 to 315: with \<open>refresh\<close>, the submission record and then the execution record
  are fetched again and assigned to the task, one after the other. The result is the task as
  these lines leave it, and the exception if one was raised.
\<close>

definition refresh_task :: "arvados \<Rightarrow> ArvadosTask \<Rightarrow> bool \<Rightarrow> ArvadosTask \<times> (pyerr + unit)" where
  "refresh_task api task refresh =
     (if refresh then
        (case py_getitem (container_request task) ''uuid'' of
           Inl e \<Rightarrow> (task, Inl e)
         | Inr u \<Rightarrow>
           (case api_get (container_requests api) u of
              Inl e \<Rightarrow> (task, Inl e)
            | Inr cr \<Rightarrow>
              (let task = task\<lparr>container_request := cr\<rparr> in
               case py_getitem (container_request task) ''container_uuid'' of
                 Inl e \<Rightarrow> (task, Inl e)
               | Inr cu \<Rightarrow>
                 (case api_get (containers api) cu of
                    Inl e \<Rightarrow> (task, Inl e)
                  | Inr c \<Rightarrow> (task\<lparr>container := c\<rparr>, Inr ())))))
      else (task, Inr ()))"

definition get_task_state :: "arvados \<Rightarrow> ArvadosTask \<Rightarrow> bool \<Rightarrow> ArvadosTask \<times> (pyerr + string)" where
  "get_task_state api task refresh =
     (case refresh_task api task refresh of
        (task, Inl e) \<Rightarrow> (task, Inl e)
      | (task, Inr _) \<Rightarrow> (task, container_state (container task)))"

section \<open>Strings, lists and listings\<close>

text \<open>\<open>s.split(sep)\<close> for a one-character separator: never an empty list.\<close>

fun split_on :: "char \<Rightarrow> string \<Rightarrow> string list" where
  "split_on sep [] = [[]]"
| "split_on sep (c # cs) =
     (if c = sep then [] # split_on sep cs
      else (case split_on sep cs of [] \<Rightarrow> [[c]] | w # ws \<Rightarrow> (c # w) # ws))"

text \<open>\<open>sep.join(xs)\<close>.\<close>

fun join :: "string \<Rightarrow> string list \<Rightarrow> string" where
  "join sep [] = []"
| "join sep [x] = x"
| "join sep (x # y # ys) = x @ sep @ join sep (y # ys)"

text \<open>\<open>xs[i]\<close> for a list and an index from the front.\<close>

definition py_index :: "'a list \<Rightarrow> nat \<Rightarrow> pyerr + 'a" where
  "py_index xs i = (if i < length xs then Inr (xs ! i) else Inl IndexError)"

text \<open>\<open>os.path.basename\<close>: the text after the last slash.\<close>

definition basename :: "string \<Rightarrow> string" where
  "basename p = rev (takeWhile (\<lambda>c. c \<noteq> CHR ''/'') (rev p))"

text \<open>
  What an f-string puts in for a value. The identifiers and hashes the module formats are
  JSON strings, \<open>None\<close> or booleans; the text of numbers, lists and dicts is left open.
\<close>

fun py_str :: "pyval \<Rightarrow> string" where
  "py_str (PStr s) = s"
| "py_str PNone = ''None''"
| "py_str (PBool b) = (if b then ''True'' else ''False'')"

text \<open>A value that has to be a string (an argument of \<open>re.search\<close> or of \<open>" ".join\<close>).\<close>

fun py_as_str :: "pyval \<Rightarrow> pyerr + string" where
  "py_as_str (PStr s) = Inr s"
| "py_as_str _ = Inl TypeError"

text \<open>
  The server's \<open>like\<close> operator: the operand goes to the database as an SQL pattern, in
  which \<open>%\<close> stands for any run of characters, \<open>_\<close> for any one character, and a backslash
  makes the character after it stand for itself. (The database refuses a pattern that ends
  in a single backslash; the patterns of this module end in \<open>%\<close>.)
\<close>

fun sql_like :: "string \<Rightarrow> string \<Rightarrow> bool" where
  "sql_like [] [] = True"
| "sql_like [] (c # s) = False"
| "sql_like (p # ps) [] = (p = CHR ''%'' \<and> sql_like ps [])"
| "sql_like (p # ps) (c # s) =
     (if p = CHR ''%'' then sql_like ps (c # s) \<or> sql_like (p # ps) s
      else if p = CHR 0x5C then (case ps of [] \<Rightarrow> False | q # qs \<Rightarrow> q = c \<and> sql_like qs s)
      else (p = CHR ''_'' \<or> p = c) \<and> sql_like ps s)"

text \<open>
  One filter \<open>[attribute, operator, operand]\<close> of a list call, evaluated by the server on a
  record. The module uses \<open>=\<close> and \<open>like\<close> on collections and workflows.
\<close>

definition filter_holds :: "pyval \<Rightarrow> string \<times> string \<times> pyval \<Rightarrow> bool" where
  "filter_holds r f =
     (case f of (attr, op, operand) \<Rightarrow>
        (case py_getitem r attr of
           Inl e \<Rightarrow> False
         | Inr v \<Rightarrow>
             if op = ''='' then v = operand
             else if op = ''like'' then
               (case (v, operand) of (PStr s, PStr pat) \<Rightarrow> sql_like pat s | _ \<Rightarrow> False)
             else False))"

text \<open>
  \<open>list(filters=...).execute()\<close>: the response is a dict whose \<open>items\<close> are the records that
  satisfy every filter. (Paging is not modelled: every match is in the one response.)
\<close>

definition api_list :: "pyval list \<Rightarrow> (string \<times> string \<times> pyval) list \<Rightarrow> pyval" where
  "api_list table filters =
     PDict [(''items'', PList (filter (\<lambda>r. list_all (filter_holds r) filters) table))]"

text \<open>\<open>response['items']\<close>, read as the list it is used as.\<close>

definition py_items :: "pyval \<Rightarrow> pyerr + pyval list" where
  "py_items response =
     pbind (py_getitem response ''items'') (\<lambda>v. case v of PList xs \<Rightarrow> Inr xs | _ \<Rightarrow> Inl TypeError)"

text \<open>The identifier the server gives to the next record it creates.\<close>

definition fresh_uuid :: "arvados \<Rightarrow> pyval" where
  "fresh_uuid api = PStr (''zzzzz-'' @ replicate (next_uuid api) (CHR ''0''))"

text \<open>
  \<open>create(body=...).execute()\<close>: the server stores the body under a new identifier and
  answers with the stored record. A new collection is empty.
\<close>

definition collections_create :: "arvados \<Rightarrow> pyval \<Rightarrow> (pyerr + pyval) \<times> arvados" where
  "collections_create api body =
     (case body of
        PDict d \<Rightarrow>
          (let r = PDict (dict_set (dict_set d ''uuid'' (fresh_uuid api))
                            ''portable_data_hash'' (PStr ''d41d8cd98f00b204e9800998ecf8427e+0''))
           in (Inr r, api\<lparr>collections := collections api @ [r],
                         keep := (keep api)(fresh_uuid api := []),
                         next_uuid := Suc (next_uuid api)\<rparr>))
      | _ \<Rightarrow> (Inl ApiError, api))"

definition workflows_create :: "arvados \<Rightarrow> pyval \<Rightarrow> (pyerr + pyval) \<times> arvados" where
  "workflows_create api body =
     (case body of
        PDict d \<Rightarrow>
          (let r = PDict (dict_set d ''uuid'' (fresh_uuid api))
           in (Inr r, api\<lparr>workflows := workflows api @ [r],
                         next_uuid := Suc (next_uuid api)\<rparr>))
      | _ \<Rightarrow> (Inl ApiError, api))"

text \<open>Sequencing inside an operation on the server: an exception leaves the server as it is.\<close>

definition pthen :: "'s \<Rightarrow> pyerr + 'a \<Rightarrow> ('a \<Rightarrow> (pyerr + 'b) \<times> 's) \<Rightarrow> (pyerr + 'b) \<times> 's" where
  "pthen st m f = (case m of Inl e \<Rightarrow> (Inl e, st) | Inr v \<Rightarrow> f v)"

section \<open>Collections and files\<close>

definition get_files_list_in_collection :: "arvados \<Rightarrow> pyval \<Rightarrow> string option \<Rightarrow> arv_file list" where
  "get_files_list_in_collection api collection_uuid subdirectory_path =
     (let file_list = keep api collection_uuid in
      case subdirectory_path of
        None \<Rightarrow> file_list
      | Some sub \<Rightarrow>
          if sub \<noteq> [] then filter (\<lambda>fl. basename (stream_name fl) = sub) file_list
          else file_list)"

text \<open>The path of a file inside its collection, as line 91 builds it.\<close>

definition target_path_of :: "arv_file \<Rightarrow> string" where
  "target_path_of res_file = stream_name res_file @ ''/'' @ name res_file"

text \<open>
  The SDK holds a collection as a tree of directories and files, and the listing shows that
  tree: a file lies at its path; a directory is there when an entry lies in it or below it;
  a directory that holds nothing is the entry named \<open>.\<close> of its stream, as the manifest
  writes it.
\<close>

definition is_file :: "arv_file list \<Rightarrow> string \<Rightarrow> bool" where
  "is_file coll path = list_ex (\<lambda>g. target_path_of g = path \<and> name g \<noteq> ''.'') coll"

definition is_dir :: "arv_file list \<Rightarrow> string \<Rightarrow> bool" where
  "is_dir coll path = list_ex (\<lambda>g. prefix (path @ ''/'') (target_path_of g)) coll"

text \<open>The directories above a directory: the text before each of its slashes.\<close>

definition ancestors :: "string \<Rightarrow> string list" where
  "ancestors dir = map (\<lambda>i. take i dir) (filter (\<lambda>i. dir ! i = CHR ''/'') [0..<length dir])"

text \<open>\<open>"/".join(path.split("/")[0:-1])\<close>: the text before the last slash.\<close>

definition dirname :: "string \<Rightarrow> string" where
  "dirname p = rev (drop 1 (dropWhile (\<lambda>c. c \<noteq> CHR ''/'') (rev p)))"

text \<open>
  \<open>target.copy(path, target_path=path, source_collection=source, overwrite=overwrite)\<close> of
  the SDK. The source must hold a file at \<open>path\<close> (\<open>IOError\<close> otherwise). The directories
  above the file are looked up in the target, and made where they are absent: a file met on
  the way raises \<open>IOError\<close>, but a file in the place of the last directory is handed back as
  if it were one, and the membership test on it raises \<open>TypeError\<close>. When the target holds a
  directory at \<open>path\<close> itself, the file goes into that directory under its own name. An
  entry already at the place raises \<open>IOError\<close> unless \<open>overwrite\<close> is on; then the entry,
  with all that lies below it, is replaced. The directories above the new file hold
  something now and lose their \<open>.\<close> entries. The order of the listing is not modelled: the
  new file goes to its end.
\<close>

definition collection_copy :: "arv_file list \<Rightarrow> string \<Rightarrow> arv_file list \<Rightarrow> bool \<Rightarrow> pyerr + arv_file list" where
  "collection_copy target path source overwrite =
     (case find (\<lambda>f. target_path_of f = path \<and> name f \<noteq> ''.'') source of
        None \<Rightarrow> Inl IOError
      | Some f \<Rightarrow>
          if list_ex (is_file target) (ancestors (dirname path)) then Inl IOError
          else if is_file target (dirname path) then Inl TypeError
          else
            (let target_dir = (if is_dir target path then path else dirname path);
                 target_name = basename path;
                 place = target_dir @ ''/'' @ target_name
             in if (is_file target place \<or> is_dir target place) \<and> \<not> overwrite then Inl IOError
                else Inr (filter (\<lambda>g. target_path_of g \<noteq> place \<and>
                                      \<not> prefix (place @ ''/'') (target_path_of g) \<and>
                                      \<not> (name g = ''.'' \<and> prefix (stream_name g @ ''/'') place)) target
                          @ [\<lparr>stream_name = target_dir, name = target_name, data = data f\<rparr>])))"

text \<open>
  The loop of lines 87 to 99 over the files still to visit. Only \<open>IOError\<close> is caught; any
  other exception ends the loop and the call.
\<close>

fun copy_loop :: "arv_file list \<Rightarrow> arv_file list \<Rightarrow> arv_file list \<Rightarrow> bool \<Rightarrow> pyerr + arv_file list" where
  "copy_loop [] source target overwrite = Inr target"
| "copy_loop (res_file # rest) source target overwrite =
     (if name res_file \<notin> set [''cwl.input.json'', ''cwl.output.json'']
      then (case collection_copy target (target_path_of res_file) source overwrite of
              Inl e \<Rightarrow> if e = IOError then copy_loop rest source target overwrite else Inl e
            | Inr target' \<Rightarrow> copy_loop rest source target' overwrite)
      else copy_loop rest source target overwrite)"

text \<open>
  \<open>target.save()\<close>: a collection that the copies have changed is sent to the server, which
  stores the new content and puts the address of that content into the collection's record.
  A collection that no copy has changed is not sent.
\<close>

definition collection_save :: "arvados \<Rightarrow> pyval \<Rightarrow> arv_file list \<Rightarrow> arv_file list \<Rightarrow> arvados" where
  "collection_save api uuid loaded files =
     (if files = loaded then api
      else api\<lparr>collections :=
                 map (\<lambda>r. if py_getitem r ''uuid'' = Inr uuid
                          then (case r of
                                  PDict d \<Rightarrow> PDict (dict_set d ''portable_data_hash''
                                                     (PStr (content_address api files)))
                                | _ \<Rightarrow> r)
                          else r) (collections api),
               keep := (keep api)(uuid := files)\<rparr>)"

text \<open>The bulk copy. An exception that leaves the loop leaves the call before the save.\<close>

definition copy_files_from_source_dest_collection :: "arvados \<Rightarrow> pyval \<Rightarrow> pyval \<Rightarrow> bool \<Rightarrow> (pyerr + unit) \<times> arvados" where
  "copy_files_from_source_dest_collection api source_coll_uuid dest_coll_uuid overwrite =
     (let source = keep api source_coll_uuid;
          target = keep api dest_coll_uuid;
          all_files = get_files_list_in_collection api source_coll_uuid None
      in case copy_loop all_files source target overwrite of
           Inl e \<Rightarrow> (Inl e, api)
         | Inr target' \<Rightarrow> (Inr (), collection_save api dest_coll_uuid target target'))"

text \<open>Lines 117 to 120: the first element of the folder path names the collection.\<close>

definition folder_collection_name :: "string \<Rightarrow> pyerr + string" where
  "folder_collection_name reference_folder =
     (if prefix ''/'' reference_folder
      then py_index (split_on (CHR ''/'') reference_folder) 1
      else py_index (split_on (CHR ''/'') reference_folder) 0)"

text \<open>Lines 146 and 147 (and 179): the copy into the destination collection found or made.\<close>

definition copy_into :: "arvados \<Rightarrow> pyval \<Rightarrow> pyval \<Rightarrow> (pyerr + pyval) \<times> arvados" where
  "copy_into api reference_collection destination_collection =
     pthen api (py_getitem reference_collection ''uuid'') (\<lambda>src.
     pthen api (py_getitem destination_collection ''uuid'') (\<lambda>dst.
       case copy_files_from_source_dest_collection api src dst False of
         (Inl e, api') \<Rightarrow> (Inl e, api')
       | (Inr done, api') \<Rightarrow> (Inr destination_collection, api')))"

definition copy_folder :: "arvados \<Rightarrow> pyval \<Rightarrow> string \<Rightarrow> pyval \<Rightarrow> (pyerr + pyval) \<times> arvados" where
  "copy_folder api reference_project reference_folder destination_project =
     pthen api (folder_collection_name reference_folder) (\<lambda>collection_name.
     pthen api (py_getitem reference_project ''uuid'') (\<lambda>ref_uuid.
     pthen api (py_items (api_list (collections api)
                  [(''owner_uuid'', ''='', ref_uuid), (''name'', ''='', PStr collection_name)])) (\<lambda>found.
       case found of
         [] \<Rightarrow> (Inr PNone, api)
       | reference_collection # _ \<Rightarrow>
     pthen api (py_getitem destination_project ''uuid'') (\<lambda>dest_uuid.
     pthen api (py_items (api_list (collections api)
                  [(''owner_uuid'', ''='', dest_uuid), (''name'', ''='', PStr collection_name)])) (\<lambda>found'.
       case found' of
         destination_collection # _ \<Rightarrow> copy_into api reference_collection destination_collection
       | [] \<Rightarrow>
     pthen api (py_getitem destination_project ''uuid'') (\<lambda>owner.
     pthen api (py_getitem reference_collection ''description'') (\<lambda>description.
       case collections_create api (PDict [(''owner_uuid'', owner), (''name'', PStr collection_name),
                                           (''description'', description),
                                           (''preserve_version'', PBool True)]) of
         (Inl e, api') \<Rightarrow> (Inl e, api')
       | (Inr destination_collection, api') \<Rightarrow>
           copy_into api' reference_collection destination_collection)))))))"

text \<open>\<open>copy_reference_data\<close> ends without a return statement: it returns \<open>None\<close>.\<close>

definition copy_reference_data :: "arvados \<Rightarrow> pyval \<Rightarrow> pyval \<Rightarrow> (pyerr + pyval) \<times> arvados" where
  "copy_reference_data api reference_project destination_project =
     pthen api (py_getitem reference_project ''uuid'') (\<lambda>ref_uuid.
     pthen api (py_items (api_list (collections api)
                  [(''owner_uuid'', ''='', ref_uuid), (''name'', ''='', PStr ''reference_input'')])) (\<lambda>found.
       case found of
         [] \<Rightarrow> (Inr PNone, api)
       | reference_input_collection # _ \<Rightarrow>
     pthen api (py_getitem destination_project ''uuid'') (\<lambda>dest_uuid.
     pthen api (py_getitem reference_input_collection ''name'') (\<lambda>ref_name.
     pthen api (py_items (api_list (collections api)
                  [(''owner_uuid'', ''='', dest_uuid), (''name'', ''='', ref_name)])) (\<lambda>found'.
       case (case found' of
               destination_input_collection # _ \<Rightarrow>
                 copy_into api reference_input_collection destination_input_collection
             | [] \<Rightarrow>
                 pthen api (py_getitem destination_project ''uuid'') (\<lambda>owner.
                 pthen api (py_getitem reference_input_collection ''name'') (\<lambda>new_name.
                 pthen api (py_getitem reference_input_collection ''description'') (\<lambda>description.
                   case collections_create api (PDict [(''owner_uuid'', owner), (''name'', new_name),
                                                       (''description'', description),
                                                       (''preserve_version'', PBool True)]) of
                     (Inl e, api') \<Rightarrow> (Inl e, api')
                   | (Inr destination_input_collection, api') \<Rightarrow>
                       copy_into api' reference_input_collection destination_input_collection)))) of
         (Inl e, api') \<Rightarrow> (Inl e, api')
       | (Inr _, api') \<Rightarrow> (Inr PNone, api'))))))"

section \<open>Workflows\<close>

text \<open>
  \<open>re.search(r' \(.*\)$', wf_name)\<close>. After the opening \<open>" ("\<close> the rest must be a run
  of characters other than a newline, a closing parenthesis, and the end of the string;
  \<open>$\<close> also matches just before a newline that ends the string.
\<close>

definition annotation_rest :: "string \<Rightarrow> bool" where
  "annotation_rest r =
     ((r \<noteq> [] \<and> last r = CHR '')'' \<and> CHR 0x0A \<notin> set (butlast r)) \<or>
      (2 \<le> length r \<and> last r = CHR 0x0A \<and> last (butlast r) = CHR '')'' \<and>
       CHR 0x0A \<notin> set (butlast (butlast r))))"

text \<open>The start of the leftmost match, if there is one.\<close>

fun search_annotation :: "string \<Rightarrow> nat option" where
  "search_annotation [] = None"
| "search_annotation (c # cs) =
     (if c = CHR '' '' \<and> (case cs of [] \<Rightarrow> False | d # ds \<Rightarrow> d = CHR ''('' \<and> annotation_rest ds)
      then Some 0
      else map_option Suc (search_annotation cs))"

text \<open>Lines 198 to 201.\<close>

definition strip_version :: "string \<Rightarrow> string" where
  "strip_version wf_name =
     (case search_annotation wf_name of None \<Rightarrow> wf_name | Some start \<Rightarrow> take start wf_name)"

definition copy_workflow :: "arvados \<Rightarrow> pyval \<Rightarrow> pyval \<Rightarrow> (pyerr + pyval) \<times> arvados" where
  "copy_workflow api src_workflow destination_project =
     (case api_get (workflows api) src_workflow of
        Inl e \<Rightarrow> (if e = ApiError then (Inr PNone, api) else (Inl e, api))
      | Inr workflow \<Rightarrow>
     pthen api (py_getitem workflow ''name'') (\<lambda>full_name.
     pthen api (py_as_str full_name) (\<lambda>full_name.
       let wf_name = strip_version full_name in
     pthen api (py_getitem destination_project ''uuid'') (\<lambda>dest_uuid.
     pthen api (py_items (api_list (workflows api)
                  [(''owner_uuid'', ''='', dest_uuid), (''name'', ''like'', PStr (wf_name @ ''%''))])) (\<lambda>existing.
       case existing of
         first # _ \<Rightarrow> (Inr first, api)
       | [] \<Rightarrow>
     pthen api (py_getitem destination_project ''uuid'') (\<lambda>owner.
     pthen api (py_setitem workflow ''owner_uuid'' owner) (\<lambda>workflow.
     pthen api (py_delitem workflow ''uuid'') (\<lambda>workflow.
       workflows_create api workflow))))))))"

text \<open>The names \<open>[wf["name"] for wf in destination_workflows["items"]]\<close>.\<close>

fun names_of :: "pyval list \<Rightarrow> pyerr + pyval list" where
  "names_of [] = Inr []"
| "names_of (wf_item # wfs) =
     pbind (py_getitem wf_item ''name'') (\<lambda>n. pbind (names_of wfs) (\<lambda>ns. Inr (n # ns)))"

text \<open>
  The loop of lines 232 to 236 over the reference workflows still to visit.
  \<open>destination_workflows\<close> is the response of the list call, not its \<open>items\<close>.
\<close>

fun copy_workflows_loop :: "pyval list \<Rightarrow> pyval \<Rightarrow> pyval \<Rightarrow> arvados \<Rightarrow> (pyerr + pyval) \<times> arvados" where
  "copy_workflows_loop [] destination_project destination_workflows api =
     (Inr destination_workflows, api)"
| "copy_workflows_loop (wf_item # rest) destination_project destination_workflows api =
     pthen api (py_getitem wf_item ''name'') (\<lambda>wf_name.
     pthen api (py_items destination_workflows) (\<lambda>dest_items.
     pthen api (names_of dest_items) (\<lambda>dest_names.
       if \<not> py_in wf_name dest_names then
         pthen api (py_getitem destination_project ''uuid'') (\<lambda>owner.
         pthen api (py_setitem wf_item ''owner_uuid'' owner) (\<lambda>wf_item.
         pthen api (py_delitem wf_item ''uuid'') (\<lambda>wf_item.
         pthen api (py_append destination_workflows) (\<lambda>append.
           case workflows_create api wf_item of
             (Inl e, api') \<Rightarrow> (Inl e, api')
           | (Inr created, api') \<Rightarrow>
               copy_workflows_loop rest destination_project (append created) api'))))
       else copy_workflows_loop rest destination_project destination_workflows api)))"

definition copy_workflows :: "arvados \<Rightarrow> pyval \<Rightarrow> pyval \<Rightarrow> (pyerr + pyval) \<times> arvados" where
  "copy_workflows api reference_project destination_project =
     pthen api (py_getitem reference_project ''uuid'') (\<lambda>ref_uuid.
       let reference_workflows = api_list (workflows api) [(''owner_uuid'', ''='', ref_uuid)] in
     pthen api (py_getitem destination_project ''uuid'') (\<lambda>dest_uuid.
       let destination_workflows = api_list (workflows api) [(''owner_uuid'', ''='', dest_uuid)] in
     pthen api (py_items reference_workflows) (\<lambda>ref_items.
       copy_workflows_loop ref_items destination_project destination_workflows api)))"

section \<open>File references\<close>

definition get_file_id :: "arvados \<Rightarrow> pyval \<Rightarrow> string \<Rightarrow> pyerr + string" where
  "get_file_id api project file_path =
     (if prefix ''http'' file_path \<or> prefix ''keep'' file_path then Inr file_path
      else
        let folder_tree = split_on (CHR ''/'') file_path;
            folder_tree = (case folder_tree of
                             [] \<Rightarrow> []
                           | first # others \<Rightarrow> if first = [] then others else first # others)
        in
        pbind (py_index folder_tree 0) (\<lambda>collection_name.
        pbind (py_getitem project ''uuid'') (\<lambda>owner.
        pbind (py_items (api_list (collections api)
                 [(''owner_uuid'', ''='', owner), (''name'', ''='', PStr collection_name)])) (\<lambda>found.
          case found of
            collection # _ \<Rightarrow>
              pbind (py_getitem collection ''portable_data_hash'') (\<lambda>pdh.
                Inr (''keep:'' @ py_str pdh @ ''/'' @ join ''/'' (tl folder_tree)))
          | [] \<Rightarrow>
              pbind (py_getitem project ''uuid'') (\<lambda>project_uuid.
                Inl (CollectionNotFound collection_name project_uuid))))))"

section \<open>Submission\<close>

text \<open>
  What the call of the external runner can do: exit with status 0 and an output that decodes
  as UTF-8 (the decoded text), exit with status 0 and an output that does not, exit with
  another status (\<open>CalledProcessError\<close>, with the status and the output), or fail to run at
  all (\<open>IOError\<close>).
\<close>

datatype runner_outcome =
    Output string
  | UndecodableOutput
  | CalledProcessError int string
  | RunnerIOError

text \<open>
  The process environment of \<open>submit_task\<close>: the name of the temporary file once the
  parameters are written to it (\<open>None\<close> when creating or writing the file fails with an
  \<open>IOError\<close>), and the runner as a function of its command line.
\<close>

record os_env =
  parameter_file :: "string option"
  check_output :: "string list \<Rightarrow> runner_outcome"

definition submit_task :: "os_env \<Rightarrow> string \<Rightarrow> pyval \<Rightarrow> pyval \<Rightarrow> pyval \<Rightarrow> pyerr + ArvadosTask option" where
  "submit_task env task_name project workflow parameters =
     (case parameter_file env of
        None \<Rightarrow> Inl IOError
      | Some parameter_file_name \<Rightarrow>
        pbind (py_getitem project ''uuid'') (\<lambda>project_uuid.
        pbind (py_getitem workflow ''uuid'') (\<lambda>workflow_uuid.
        pbind (py_as_str project_uuid) (\<lambda>project_uuid.
        pbind (py_as_str workflow_uuid) (\<lambda>workflow_uuid.
          let cmd_str = [''arvados-cwl-runner'', ''--no-wait'',
                         ''--defer-download'',
                         ''--varying-url-params=AWSAccessKeyId,Signature,Expires'',
                         ''--prefer-cached-downloads'',
                         ''--debug'',
                         ''--project-uuid'', project_uuid,
                         ''--name'', task_name,
                         workflow_uuid,
                         parameter_file_name]
          in
          case check_output env cmd_str of
            Output runner_log \<Rightarrow>
              (case filter (\<lambda>l. l \<noteq> []) (split_on (CHR 0x0A) runner_log) of
                 [] \<Rightarrow> Inl IndexError
               | l # ls \<Rightarrow>
                   Inr (Some \<lparr>container_request = PDict [(''uuid'', PStr (last (l # ls)))],
                              container = PNone\<rparr>))
          | UndecodableOutput \<Rightarrow> Inl UnicodeDecodeError
          | CalledProcessError status out \<Rightarrow> Inr None
          | RunnerIOError \<Rightarrow> Inr None)))))"

section \<open>Basic facts\<close>

lemma pbind_simps: "pbind (Inl e) f = Inl e" "pbind (Inr v) f = f v"
  by (simp_all add: pbind_def)

lemma pthen_simps: "pthen st (Inl e) f = (Inl e, st)" "pthen st (Inr v) f = f v"
  by (simp_all add: pthen_def)

lemma key_in_iff: "k \<in> fst ` set d \<longleftrightarrow> map_of d k \<noteq> None"
  by (simp add: map_of_eq_None_iff)

lemma split_on_no_sep: "sep \<notin> set a \<Longrightarrow> split_on sep a = [a]"
  by (induction a) auto

lemma split_on_append: "sep \<notin> set a \<Longrightarrow> split_on sep (a @ sep # b) = a # split_on sep b"
  by (induction a) auto

lemma split_on_join:
  "\<forall>s \<in> set (x # xs). CHR ''/'' \<notin> set s \<Longrightarrow>
   split_on (CHR ''/'') (join ''/'' (x # xs)) = x # xs"
proof (induction xs arbitrary: x)
  case Nil
  then show ?case by (simp add: split_on_no_sep)
next
  case (Cons y ys)
  then show ?case by (simp add: split_on_append)
qed

lemma filter_holds_eq: "filter_holds r (attr, ''='', v) \<longleftrightarrow> py_getitem r attr = Inr v"
  by (auto simp add: filter_holds_def split: sum.splits)

lemma filter_holds_like:
  "filter_holds r (attr, ''like'', PStr pat) \<longleftrightarrow>
     (\<exists>s. py_getitem r attr = Inr (PStr s) \<and> sql_like pat s)"
  by (auto simp add: filter_holds_def split: sum.splits pyval.splits)

lemma py_items_api_list:
  "py_items (api_list table filters) = Inr (filter (\<lambda>r. list_all (filter_holds r) filters) table)"
  by (simp add: py_items_def api_list_def pbind_simps)

lemma copy_workflows_loop_response:
  "copy_workflows_loop wfs destination_project (PDict d) api = (r, api') \<Longrightarrow>
   api' = api \<and> (\<forall>v. r = Inr v \<longrightarrow> v = PDict d)"
proof (induction wfs)
  case Nil
  then show ?case by auto
next
  case (Cons w wfs)
  then show ?case
    by (auto simp add: pthen_def split: sum.splits if_splits)
qed

lemma copy_workflows_creates_nothing:
  "snd (copy_workflows api reference_project destination_project) = api"
proof -
  obtain r api' where res: "copy_workflows api reference_project destination_project = (r, api')"
    by (cases "copy_workflows api reference_project destination_project")
  then have "api' = api"
    using copy_workflows_loop_response
    by (auto simp add: copy_workflows_def pthen_def api_list_def Let_def split: sum.splits)
  with res show ?thesis by simp
qed

subsection \<open>The copy loop\<close>



















subsection \<open>Patterns and version annotations\<close>

lemma sql_like_percent: "sql_like ''%'' s"
  by (induction s) auto

lemma sql_like_skip: "sql_like q t \<Longrightarrow> sql_like (CHR ''%'' # q) t"
  by (cases t) auto

lemma sql_like_own_prefix:
  "CHR 0x5C \<notin> set p \<Longrightarrow> sql_like (p @ ''%'') (p @ s)"
proof (induction p)
  case Nil
  then show ?case using sql_like_percent by simp
next
  case (Cons c p)
  then show ?case using sql_like_skip [of "p @ ''%''" "p @ s"] by auto
qed

lemma sql_like_plain:
  "CHR ''%'' \<notin> set p \<Longrightarrow> CHR ''_'' \<notin> set p \<Longrightarrow> CHR 0x5C \<notin> set p \<Longrightarrow>
   sql_like (p @ ''%'') s \<longleftrightarrow> prefix p s"
proof (induction p arbitrary: s)
  case Nil
  then show ?case using sql_like_percent by simp
next
  case (Cons c p)
  then show ?case by (cases s) auto
qed

lemma strip_version_take: "\<exists>n. strip_version wf_name = take n wf_name"
  by (auto simp add: strip_version_def split: option.splits intro: exI [of _ "length wf_name"])

lemma strip_version_prefix: "\<exists>rest. wf_name = strip_version wf_name @ rest"
proof -
  from strip_version_take obtain n where "strip_version wf_name = take n wf_name" by blast
  then have "wf_name = strip_version wf_name @ drop n wf_name" by simp
  then show ?thesis by blast
qed

lemma strip_version_example: "strip_version ''Align (a1b2c3)'' = ''Align''"
  by (simp add: strip_version_def annotation_rest_def)

subsection \<open>Records, look-ups and repeated copies\<close>

lemma map_of_dict_set:
  "map_of (dict_set d k v) k' = (if k' = k then Some v else map_of d k')"
  by (induction d) auto

lemma collection_save_table:
  "\<exists>u. collections (collection_save api uuid loaded files) = map u (collections api) \<and>
       (\<forall>r k. k \<noteq> ''portable_data_hash'' \<longrightarrow> py_getitem (u r) k = py_getitem r k)"
proof (cases "files = loaded")
  case True
  then have "collections (collection_save api uuid loaded files) = map (\<lambda>r. r) (collections api)"
    by (simp add: collection_save_def)
  then show ?thesis by blast
next
  case False
  let ?u = "\<lambda>r. if py_getitem r ''uuid'' = Inr uuid
                 then (case r of
                         PDict d \<Rightarrow> PDict (dict_set d ''portable_data_hash''
                                            (PStr (content_address api files)))
                       | _ \<Rightarrow> r)
                 else r"
  from False have "collections (collection_save api uuid loaded files) = map ?u (collections api)"
    by (simp add: collection_save_def)
  moreover have "\<forall>r k. k \<noteq> ''portable_data_hash'' \<longrightarrow> py_getitem (?u r) k = py_getitem r k"
    by (auto simp add: map_of_dict_set split: pyval.splits)
  ultimately show ?thesis by blast
qed

lemma collection_save_other:
  "workflows (collection_save api uuid loaded files) = workflows api"
  by (simp add: collection_save_def)

lemma copy_files_table:
  "\<exists>u. collections (snd (copy_files_from_source_dest_collection api src dst overwrite))
          = map u (collections api) \<and>
       (\<forall>r k. k \<noteq> ''portable_data_hash'' \<longrightarrow> py_getitem (u r) k = py_getitem r k)"
proof (cases "copy_loop (keep api src) (keep api src) (keep api dst) overwrite")
  case (Inl e)
  then have "collections (snd (copy_files_from_source_dest_collection api src dst overwrite))
               = map (\<lambda>r. r) (collections api)"
    by (simp add: copy_files_from_source_dest_collection_def get_files_list_in_collection_def
          Let_def)
  then show ?thesis by blast
next
  case (Inr files)
  then have "snd (copy_files_from_source_dest_collection api src dst overwrite)
               = collection_save api dst (keep api dst) files"
    by (simp add: copy_files_from_source_dest_collection_def get_files_list_in_collection_def
          Let_def)
  then show ?thesis using collection_save_table by simp
qed

lemma copy_files_workflows:
  "workflows (snd (copy_files_from_source_dest_collection api src dst overwrite)) = workflows api"
  by (simp add: copy_files_from_source_dest_collection_def get_files_list_in_collection_def
        Let_def collection_save_other split: sum.splits)

lemma copy_into_table:
  "\<exists>u. collections (snd (copy_into api reference_collection destination_collection))
          = map u (collections api) \<and>
       (\<forall>r k. k \<noteq> ''portable_data_hash'' \<longrightarrow> py_getitem (u r) k = py_getitem r k)"
proof (cases "\<exists>src dst. py_getitem reference_collection ''uuid'' = Inr src \<and>
                py_getitem destination_collection ''uuid'' = Inr dst")
  case True
  then obtain src dst where "py_getitem reference_collection ''uuid'' = Inr src"
    and "py_getitem destination_collection ''uuid'' = Inr dst" by blast
  then have "snd (copy_into api reference_collection destination_collection)
               = snd (copy_files_from_source_dest_collection api src dst False)"
    by (simp add: copy_into_def pthen_simps split: prod.splits sum.splits)
  then show ?thesis using copy_files_table by simp
next
  case False
  then have "snd (copy_into api reference_collection destination_collection) = api"
    by (auto simp add: copy_into_def pthen_def split: sum.splits)
  then have "collections (snd (copy_into api reference_collection destination_collection))
               = map (\<lambda>r. r) (collections api)" by simp
  then show ?thesis by blast
qed

lemma copy_into_workflows:
  "workflows (snd (copy_into api reference_collection destination_collection)) = workflows api"
  by (simp add: copy_into_def pthen_def copy_files_workflows split: sum.splits prod.splits)
     (metis copy_files_workflows snd_conv)

lemma copy_into_result:
  "fst (copy_into api reference_collection destination_collection) = Inr v \<Longrightarrow>
   v = destination_collection"
  by (auto simp add: copy_into_def pthen_def split: sum.splits prod.splits)

lemma filter_holds_updated:
  "\<forall>r k. k \<noteq> ''portable_data_hash'' \<longrightarrow> py_getitem (u r) k = py_getitem r k \<Longrightarrow>
   attr \<noteq> ''portable_data_hash'' \<Longrightarrow>
   filter_holds (u r) (attr, op, operand) = filter_holds r (attr, op, operand)"
  by (simp add: filter_holds_def)

lemma filter_updated:
  assumes "\<forall>r k. k \<noteq> ''portable_data_hash'' \<longrightarrow> py_getitem (u r) k = py_getitem r k"
    and "a \<noteq> ''portable_data_hash''" and "b \<noteq> ''portable_data_hash''"
  shows "filter (\<lambda>r. list_all (filter_holds r) [(a, op, x), (b, op', y)]) (map u table)
           = map u (filter (\<lambda>r. list_all (filter_holds r) [(a, op, x), (b, op', y)]) table)"
  by (induction table) (simp_all add: filter_holds_updated [OF assms(1)] assms(2,3))

text \<open>\<open>copy_folder\<close> once the reference collection is found.\<close>

lemma copy_folder_find_or_create:
  assumes "folder_collection_name reference_folder = Inr collection_name"
    and "py_getitem reference_project ''uuid'' = Inr ref_uuid"
    and "filter (\<lambda>r. list_all (filter_holds r)
           [(''owner_uuid'', ''='', ref_uuid), (''name'', ''='', PStr collection_name)])
           (collections api) = reference_collection # others"
    and "py_getitem destination_project ''uuid'' = Inr dest_uuid"
  shows "copy_folder api reference_project reference_folder destination_project =
           (case filter (\<lambda>r. list_all (filter_holds r)
                    [(''owner_uuid'', ''='', dest_uuid), (''name'', ''='', PStr collection_name)])
                    (collections api) of
              destination_collection # _ \<Rightarrow>
                copy_into api reference_collection destination_collection
            | [] \<Rightarrow>
                pthen api (py_getitem reference_collection ''description'') (\<lambda>description.
                  case collections_create api
                         (PDict [(''owner_uuid'', dest_uuid), (''name'', PStr collection_name),
                                 (''description'', description),
                                 (''preserve_version'', PBool True)]) of
                    (Inl e, api') \<Rightarrow> (Inl e, api')
                  | (Inr destination_collection, api') \<Rightarrow>
                      copy_into api' reference_collection destination_collection))"
  using assms
  by (simp add: copy_folder_def pthen_simps py_items_api_list split: list.splits)

lemma copy_folder_early:
  assumes "\<not> (\<exists>collection_name ref_uuid reference_collection others dest_uuid.
             folder_collection_name reference_folder = Inr collection_name \<and>
             py_getitem reference_project ''uuid'' = Inr ref_uuid \<and>
             filter (\<lambda>r. list_all (filter_holds r)
               [(''owner_uuid'', ''='', ref_uuid), (''name'', ''='', PStr collection_name)])
               (collections api) = reference_collection # others \<and>
             py_getitem destination_project ''uuid'' = Inr dest_uuid)"
  shows "snd (copy_folder api reference_project reference_folder destination_project) = api \<and>
         (\<forall>v. fst (copy_folder api reference_project reference_folder destination_project) = Inr v
               \<longrightarrow> v = PNone)"
  using assms
  by (auto simp add: copy_folder_def pthen_def py_items_api_list split: sum.splits list.splits)

text \<open>\<open>copy_reference_data\<close> once the reference collection is found.\<close>

lemma copy_reference_data_find_or_create:
  assumes "py_getitem reference_project ''uuid'' = Inr ref_uuid"
    and "filter (\<lambda>r. list_all (filter_holds r)
           [(''owner_uuid'', ''='', ref_uuid), (''name'', ''='', PStr ''reference_input'')])
           (collections api) = reference_input_collection # others"
    and "py_getitem destination_project ''uuid'' = Inr dest_uuid"
    and "py_getitem reference_input_collection ''name'' = Inr ref_name"
  shows "copy_reference_data api reference_project destination_project =
           (case filter (\<lambda>r. list_all (filter_holds r)
                    [(''owner_uuid'', ''='', dest_uuid), (''name'', ''='', ref_name)])
                    (collections api) of
              destination_input_collection # _ \<Rightarrow>
                (case fst (copy_into api reference_input_collection
                             destination_input_collection) of
                   Inl e \<Rightarrow> Inl e | Inr v \<Rightarrow> Inr PNone,
                 snd (copy_into api reference_input_collection destination_input_collection))
            | [] \<Rightarrow>
                (case py_getitem reference_input_collection ''description'' of
                   Inl e \<Rightarrow> (Inl e, api)
                 | Inr description \<Rightarrow>
                     (case collections_create api
                         (PDict [(''owner_uuid'', dest_uuid), (''name'', ref_name),
                                 (''description'', description),
                                 (''preserve_version'', PBool True)]) of
                    (Inl e, api') \<Rightarrow> (Inl e, api')
                  | (Inr destination_input_collection, api') \<Rightarrow>
                      (case fst (copy_into api' reference_input_collection
                                   destination_input_collection) of
                         Inl e \<Rightarrow> Inl e | Inr v \<Rightarrow> Inr PNone,
                       snd (copy_into api' reference_input_collection
                              destination_input_collection)))))"
  using assms
  by (simp add: copy_reference_data_def pthen_simps py_items_api_list collections_create_def
        Let_def split: list.splits sum.splits prod.splits)

lemma copy_reference_data_early:
  assumes "\<not> (\<exists>ref_uuid reference_input_collection others dest_uuid ref_name.
             py_getitem reference_project ''uuid'' = Inr ref_uuid \<and>
             filter (\<lambda>r. list_all (filter_holds r)
               [(''owner_uuid'', ''='', ref_uuid), (''name'', ''='', PStr ''reference_input'')])
               (collections api) = reference_input_collection # others \<and>
             py_getitem destination_project ''uuid'' = Inr dest_uuid \<and>
             py_getitem reference_input_collection ''name'' = Inr ref_name)"
  shows "snd (copy_reference_data api reference_project destination_project) = api"
  using assms
  by (auto simp add: copy_reference_data_def pthen_def py_items_api_list
        split: sum.splits list.splits)


text \<open>
  \<open>copy_folder\<close> twice. The first call adds at most one collection record and the second
  adds none. A record that the second call returns is a record of the server as the first
  call leaves it, owned by the destination project and named as the folder's collection.
\<close>

lemma copy_folder_twice:
  "length (collections (snd (copy_folder (snd (copy_folder api reference_project reference_folder destination_project))
          reference_project reference_folder destination_project)))
     = length (collections (snd (copy_folder api reference_project reference_folder destination_project))) \<and>
   length (collections (snd (copy_folder api reference_project reference_folder destination_project))) \<le> Suc (length (collections api)) \<and>
   workflows (snd (copy_folder (snd (copy_folder api reference_project reference_folder destination_project))
          reference_project reference_folder destination_project)) = workflows api \<and>
   (\<forall>v. fst (copy_folder (snd (copy_folder api reference_project reference_folder destination_project))
          reference_project reference_folder destination_project) = Inr v \<and> v \<noteq> PNone \<longrightarrow>
        v \<in> set (collections (snd (copy_folder api reference_project reference_folder destination_project))) \<and>
        py_getitem v ''owner_uuid'' = py_getitem destination_project ''uuid'' \<and>
        (\<forall>collection_name. folder_collection_name reference_folder = Inr collection_name \<longrightarrow>
           py_getitem v ''name'' = Inr (PStr collection_name)))"
proof (cases "\<exists>collection_name ref_uuid reference_collection others dest_uuid.
             folder_collection_name reference_folder = Inr collection_name \<and>
             py_getitem reference_project ''uuid'' = Inr ref_uuid \<and>
             filter (\<lambda>r. list_all (filter_holds r)
               [(''owner_uuid'', ''='', ref_uuid), (''name'', ''='', PStr collection_name)])
               (collections api) = reference_collection # others \<and>
             py_getitem destination_project ''uuid'' = Inr dest_uuid")
  case False
  from copy_folder_early [OF False]
  have same: "snd (copy_folder api reference_project reference_folder destination_project) = api"
    and none: "\<forall>v. fst (copy_folder api reference_project reference_folder destination_project) = Inr v \<longrightarrow> v = PNone" by blast+
  from none show ?thesis by (simp only: same) auto
next
  case True
  then obtain collection_name ref_uuid reference_collection others dest_uuid where
    cn: "folder_collection_name reference_folder = Inr collection_name"
    and ru: "py_getitem reference_project ''uuid'' = Inr ref_uuid"
    and rc: "filter (\<lambda>r. list_all (filter_holds r)
               [(''owner_uuid'', ''='', ref_uuid), (''name'', ''='', PStr collection_name)])
               (collections api) = reference_collection # others"
    and du: "py_getitem destination_project ''uuid'' = Inr dest_uuid" by blast
  let ?dmatch = "\<lambda>r. list_all (filter_holds r)
                    [(''owner_uuid'', ''='', dest_uuid), (''name'', ''='', PStr collection_name)]"
  let ?rmatch = "\<lambda>r. list_all (filter_holds r)
                    [(''owner_uuid'', ''='', ref_uuid), (''name'', ''='', PStr collection_name)]"
  note step = copy_folder_find_or_create [OF cn ru _ du]
  let ?goal = ?thesis
  have twice: "\<And>api1 rc1 dc1 others1.
      copy_folder api reference_project reference_folder destination_project = copy_into api1 rc1 dc1 \<Longrightarrow>
      length (collections api1) \<le> Suc (length (collections api)) \<Longrightarrow>
      workflows api1 = workflows api \<Longrightarrow>
      filter ?rmatch (collections api1) = rc1 # others1 \<Longrightarrow>
      filter ?dmatch (collections api1) = [dc1] @ drop 1 (filter ?dmatch (collections api1)) \<Longrightarrow>
      ?goal"
  proof -
    fix api1 rc1 dc1 others1
    assume first: "copy_folder api reference_project reference_folder destination_project = copy_into api1 rc1 dc1"
      and len: "length (collections api1) \<le> Suc (length (collections api))"
      and wfs: "workflows api1 = workflows api"
      and rc1: "filter ?rmatch (collections api1) = rc1 # others1"
      and dc1: "filter ?dmatch (collections api1)
                  = [dc1] @ drop 1 (filter ?dmatch (collections api1))"
    let ?first = "copy_into api1 rc1 dc1"
    from copy_into_table [of api1 rc1 dc1] obtain u where
      t1: "collections (snd ?first) = map u (collections api1)"
      and pres: "\<forall>r k. k \<noteq> ''portable_data_hash'' \<longrightarrow> py_getitem (u r) k = py_getitem r k"
      by blast
    have fr: "filter ?rmatch (map u (collections api1)) = map u (filter ?rmatch (collections api1))"
      by (rule filter_updated [OF pres]) simp_all
    have fd: "filter ?dmatch (map u (collections api1)) = map u (filter ?dmatch (collections api1))"
      by (rule filter_updated [OF pres]) simp_all
    have rc2: "filter ?rmatch (collections (snd ?first)) = u rc1 # map u others1"
      by (simp only: t1 fr rc1 list.map)
    have "filter ?dmatch (collections (snd ?first))
            = map u ([dc1] @ drop 1 (filter ?dmatch (collections api1)))"
      using dc1 by (simp only: t1 fd)
    then have dc2: "filter ?dmatch (collections (snd ?first))
            = u dc1 # map u (drop 1 (filter ?dmatch (collections api1)))" by simp
    let ?second = "copy_into (snd ?first) (u rc1) (u dc1)"
    from step [OF rc2] dc2
    have second: "copy_folder (snd ?first) reference_project reference_folder destination_project
                    = ?second" by simp
    from copy_into_table [of "snd ?first" "u rc1" "u dc1"] obtain u' where
      t2: "collections (snd ?second) = map u' (collections (snd ?first))" by blast
    have l2: "length (collections (snd ?second)) = length (collections (snd ?first))"
      by (simp only: t2 length_map)
    have l1: "length (collections (snd ?first)) \<le> Suc (length (collections api))"
      using len by (simp only: t1 length_map)
    have w: "workflows (snd ?second) = workflows api"
      by (simp only: copy_into_workflows wfs)
    have "dc1 \<in> set (filter ?dmatch (collections api1))" by (subst dc1) simp
    then have mem: "dc1 \<in> set (collections api1)" and m: "?dmatch dc1" by simp_all
    from mem have mem': "u dc1 \<in> set (collections (snd ?first))" by (simp only: t1) simp
    from m have "py_getitem dc1 ''owner_uuid'' = Inr dest_uuid"
      and "py_getitem dc1 ''name'' = Inr (PStr collection_name)"
      by (simp_all add: filter_holds_eq)
    with pres have own: "py_getitem (u dc1) ''owner_uuid'' = Inr dest_uuid"
      and nam: "py_getitem (u dc1) ''name'' = Inr (PStr collection_name)" by simp_all
    have ret: "\<forall>v. fst ?second = Inr v \<longrightarrow> v = u dc1"
      using copy_into_result by blast
    from l2 l1 w mem' own nam ret cn du show ?goal
      by (simp only: first second) auto
  qed
  show ?thesis
  proof (cases "filter ?dmatch (collections api)")
    case (Cons destination_collection rest)
    from step [OF rc] Cons
    have first: "copy_folder api reference_project reference_folder destination_project = copy_into api reference_collection destination_collection" by simp
    from Cons have dc: "filter ?dmatch (collections api)
              = [destination_collection] @ drop 1 (filter ?dmatch (collections api))" by simp
    show ?thesis by (rule twice [OF first _ _ rc dc]) simp_all
  next
    case Nil
    show ?thesis
    proof (cases "py_getitem reference_collection ''description''")
      case (Inl e)
      with step [OF rc] Nil
      have "copy_folder api reference_project reference_folder destination_project = (Inl e, api)" by (simp add: pthen_simps)
      then show ?thesis by simp
    next
      case (Inr description)
      let ?created = "PDict (dict_set (dict_set
                        [(''owner_uuid'', dest_uuid), (''name'', PStr collection_name),
                         (''description'', description), (''preserve_version'', PBool True)]
                        ''uuid'' (fresh_uuid api))
                        ''portable_data_hash'' (PStr ''d41d8cd98f00b204e9800998ecf8427e+0''))"
      let ?api' = "api\<lparr>collections := collections api @ [?created],
                        keep := (keep api)(fresh_uuid api := []),
                        next_uuid := Suc (next_uuid api)\<rparr>"
      from step [OF rc] Nil Inr
      have first: "copy_folder api reference_project reference_folder destination_project = copy_into ?api' reference_collection ?created"
        by (simp add: pthen_simps collections_create_def Let_def)
      have m: "?dmatch ?created" by (simp add: filter_holds_def)
      have rc': "filter ?rmatch (collections ?api') =
                   reference_collection # (others @ filter ?rmatch [?created])"
        using rc by simp
      have "filter ?dmatch (collections ?api') = [?created]"
        using Nil m by simp
      then have dc': "filter ?dmatch (collections ?api')
                        = [?created] @ drop 1 (filter ?dmatch (collections ?api'))"
        by simp
      show ?thesis by (rule twice [OF first _ _ rc' dc']) simp_all
    qed
  qed
qed


text \<open>When the destination project has no collection of the name, the first call makes it.\<close>

lemma copy_folder_creates:
  assumes cn: "folder_collection_name reference_folder = Inr collection_name"
    and ru: "py_getitem reference_project ''uuid'' = Inr ref_uuid"
    and rc: "filter (\<lambda>r. list_all (filter_holds r)
               [(''owner_uuid'', ''='', ref_uuid), (''name'', ''='', PStr collection_name)])
               (collections api) = reference_collection # others"
    and du: "py_getitem destination_project ''uuid'' = Inr dest_uuid"
    and absent: "filter (\<lambda>r. list_all (filter_holds r)
               [(''owner_uuid'', ''='', dest_uuid), (''name'', ''='', PStr collection_name)])
               (collections api) = []"
    and descr: "py_getitem reference_collection ''description'' = Inr description"
  shows "\<exists>u r. collections (snd (copy_folder api reference_project reference_folder destination_project)) = map u (collections api) @ [r] \<and>
               py_getitem r ''owner_uuid'' = Inr dest_uuid \<and>
               py_getitem r ''name'' = Inr (PStr collection_name)"
proof -
  let ?created = "PDict (dict_set (dict_set
                    [(''owner_uuid'', dest_uuid), (''name'', PStr collection_name),
                     (''description'', description), (''preserve_version'', PBool True)]
                    ''uuid'' (fresh_uuid api))
                    ''portable_data_hash'' (PStr ''d41d8cd98f00b204e9800998ecf8427e+0''))"
  let ?api' = "api\<lparr>collections := collections api @ [?created],
                    keep := (keep api)(fresh_uuid api := []),
                    next_uuid := Suc (next_uuid api)\<rparr>"
  from copy_folder_find_or_create [OF cn ru rc du] absent descr
  have first: "copy_folder api reference_project reference_folder destination_project = copy_into ?api' reference_collection ?created"
    by (simp add: pthen_simps collections_create_def Let_def)
  from copy_into_table [of ?api' reference_collection ?created] obtain u where
    t: "collections (snd (copy_into ?api' reference_collection ?created))
          = map u (collections ?api')"
    and pres: "\<forall>r k. k \<noteq> ''portable_data_hash'' \<longrightarrow> py_getitem (u r) k = py_getitem r k"
    by blast
  have "collections (snd (copy_folder api reference_project reference_folder destination_project)) = map u (collections api) @ [u ?created]"
    by (simp only: first t) simp
  moreover from pres have "py_getitem (u ?created) ''owner_uuid'' = Inr dest_uuid"
    and "py_getitem (u ?created) ''name'' = Inr (PStr collection_name)" by simp_all
  ultimately show ?thesis by blast
qed

text \<open>
  \<open>copy_reference_data\<close> twice: the first call adds at most one collection record, the
  second adds none.
\<close>

lemma copy_reference_data_twice:
  "length (collections (snd (copy_reference_data (snd (copy_reference_data api reference_project destination_project))
          reference_project destination_project)))
     = length (collections (snd (copy_reference_data api reference_project destination_project))) \<and>
   length (collections (snd (copy_reference_data api reference_project destination_project))) \<le> Suc (length (collections api)) \<and>
   workflows (snd (copy_reference_data (snd (copy_reference_data api reference_project destination_project))
          reference_project destination_project)) = workflows api"
proof (cases "\<exists>ref_uuid reference_input_collection others dest_uuid ref_name.
             py_getitem reference_project ''uuid'' = Inr ref_uuid \<and>
             filter (\<lambda>r. list_all (filter_holds r)
               [(''owner_uuid'', ''='', ref_uuid), (''name'', ''='', PStr ''reference_input'')])
               (collections api) = reference_input_collection # others \<and>
             py_getitem destination_project ''uuid'' = Inr dest_uuid \<and>
             py_getitem reference_input_collection ''name'' = Inr ref_name")
  case False
  from copy_reference_data_early [OF False] show ?thesis by simp
next
  case True
  then obtain ref_uuid reference_input_collection others dest_uuid ref_name where
    ru: "py_getitem reference_project ''uuid'' = Inr ref_uuid"
    and rc: "filter (\<lambda>r. list_all (filter_holds r)
               [(''owner_uuid'', ''='', ref_uuid), (''name'', ''='', PStr ''reference_input'')])
               (collections api) = reference_input_collection # others"
    and du: "py_getitem destination_project ''uuid'' = Inr dest_uuid"
    and rn: "py_getitem reference_input_collection ''name'' = Inr ref_name" by blast
  let ?dmatch = "\<lambda>r. list_all (filter_holds r)
                    [(''owner_uuid'', ''='', dest_uuid), (''name'', ''='', ref_name)]"
  let ?rmatch = "\<lambda>r. list_all (filter_holds r)
                    [(''owner_uuid'', ''='', ref_uuid), (''name'', ''='', PStr ''reference_input'')]"
  let ?goal = ?thesis
  have twice: "\<And>api1 rc1 dc1 others1.
      snd (copy_reference_data api reference_project destination_project) = snd (copy_into api1 rc1 dc1) \<Longrightarrow>
      length (collections api1) \<le> Suc (length (collections api)) \<Longrightarrow>
      workflows api1 = workflows api \<Longrightarrow>
      py_getitem rc1 ''name'' = Inr ref_name \<Longrightarrow>
      filter ?rmatch (collections api1) = rc1 # others1 \<Longrightarrow>
      filter ?dmatch (collections api1) = [dc1] @ drop 1 (filter ?dmatch (collections api1)) \<Longrightarrow>
      ?goal"
  proof -
    fix api1 rc1 dc1 others1
    assume first: "snd (copy_reference_data api reference_project destination_project) = snd (copy_into api1 rc1 dc1)"
      and len: "length (collections api1) \<le> Suc (length (collections api))"
      and wfs: "workflows api1 = workflows api"
      and rn1: "py_getitem rc1 ''name'' = Inr ref_name"
      and rc1: "filter ?rmatch (collections api1) = rc1 # others1"
      and dc1: "filter ?dmatch (collections api1)
                  = [dc1] @ drop 1 (filter ?dmatch (collections api1))"
    let ?first = "copy_into api1 rc1 dc1"
    from copy_into_table [of api1 rc1 dc1] obtain u where
      t1: "collections (snd ?first) = map u (collections api1)"
      and pres: "\<forall>r k. k \<noteq> ''portable_data_hash'' \<longrightarrow> py_getitem (u r) k = py_getitem r k"
      by blast
    have fr: "filter ?rmatch (map u (collections api1)) = map u (filter ?rmatch (collections api1))"
      by (rule filter_updated [OF pres]) simp_all
    have fd: "filter ?dmatch (map u (collections api1)) = map u (filter ?dmatch (collections api1))"
      by (rule filter_updated [OF pres]) simp_all
    have rc2: "filter ?rmatch (collections (snd ?first)) = u rc1 # map u others1"
      by (simp only: t1 fr rc1 list.map)
    have "filter ?dmatch (collections (snd ?first))
            = map u ([dc1] @ drop 1 (filter ?dmatch (collections api1)))"
      using dc1 by (simp only: t1 fd)
    then have dc2: "filter ?dmatch (collections (snd ?first))
            = u dc1 # map u (drop 1 (filter ?dmatch (collections api1)))" by simp
    from pres rn1 have rn2: "py_getitem (u rc1) ''name'' = Inr ref_name" by simp
    let ?second = "copy_into (snd ?first) (u rc1) (u dc1)"
    from copy_reference_data_find_or_create [OF ru rc2 du rn2] dc2
    have second: "snd (copy_reference_data (snd ?first) reference_project destination_project)
                    = snd ?second" by simp
    from copy_into_table [of "snd ?first" "u rc1" "u dc1"] obtain u' where
      t2: "collections (snd ?second) = map u' (collections (snd ?first))" by blast
    have l2: "length (collections (snd ?second)) = length (collections (snd ?first))"
      by (simp only: t2 length_map)
    have l1: "length (collections (snd ?first)) \<le> Suc (length (collections api))"
      using len by (simp only: t1 length_map)
    have w: "workflows (snd ?second) = workflows api"
      by (simp only: copy_into_workflows wfs)
    from l2 l1 w show ?goal by (simp only: first second)
  qed
  note step = copy_reference_data_find_or_create [OF ru rc du rn]
  show ?thesis
  proof (cases "filter ?dmatch (collections api)")
    case (Cons destination_input_collection rest)
    from step Cons
    have first: "snd (copy_reference_data api reference_project destination_project) = snd (copy_into api reference_input_collection
                                   destination_input_collection)" by simp
    from Cons have dc: "filter ?dmatch (collections api)
              = [destination_input_collection] @ drop 1 (filter ?dmatch (collections api))"
      by simp
    show ?thesis by (rule twice [OF first _ _ rn rc dc]) simp_all
  next
    case Nil
    show ?thesis
    proof (cases "py_getitem reference_input_collection ''description''")
      case (Inl e)
      with step Nil have "copy_reference_data api reference_project destination_project = (Inl e, api)" by simp
      then show ?thesis by simp
    next
      case (Inr description)
      let ?created = "PDict (dict_set (dict_set
                        [(''owner_uuid'', dest_uuid), (''name'', ref_name),
                         (''description'', description), (''preserve_version'', PBool True)]
                        ''uuid'' (fresh_uuid api))
                        ''portable_data_hash'' (PStr ''d41d8cd98f00b204e9800998ecf8427e+0''))"
      let ?api' = "api\<lparr>collections := collections api @ [?created],
                        keep := (keep api)(fresh_uuid api := []),
                        next_uuid := Suc (next_uuid api)\<rparr>"
      from step Nil Inr
      have first: "snd (copy_reference_data api reference_project destination_project) = snd (copy_into ?api' reference_input_collection ?created)"
        by (simp add: collections_create_def Let_def)
      have m: "?dmatch ?created" by (simp add: filter_holds_def)
      have rc': "filter ?rmatch (collections ?api') =
                   reference_input_collection # (others @ filter ?rmatch [?created])"
        using rc by simp
      have "filter ?dmatch (collections ?api') = [?created]"
        using Nil m by simp
      then have dc': "filter ?dmatch (collections ?api')
                        = [?created] @ drop 1 (filter ?dmatch (collections ?api'))"
        by simp
      show ?thesis by (rule twice [OF first _ _ rn rc' dc']) simp_all
    qed
  qed
qed

lemma copy_reference_data_creates:
  assumes ru: "py_getitem reference_project ''uuid'' = Inr ref_uuid"
    and rc: "filter (\<lambda>r. list_all (filter_holds r)
               [(''owner_uuid'', ''='', ref_uuid), (''name'', ''='', PStr ''reference_input'')])
               (collections api) = reference_input_collection # others"
    and du: "py_getitem destination_project ''uuid'' = Inr dest_uuid"
    and rn: "py_getitem reference_input_collection ''name'' = Inr ref_name"
    and absent: "filter (\<lambda>r. list_all (filter_holds r)
               [(''owner_uuid'', ''='', dest_uuid), (''name'', ''='', ref_name)])
               (collections api) = []"
    and descr: "py_getitem reference_input_collection ''description'' = Inr description"
  shows "\<exists>u r. collections (snd (copy_reference_data api reference_project destination_project)) = map u (collections api) @ [r] \<and>
               py_getitem r ''owner_uuid'' = Inr dest_uuid \<and>
               py_getitem r ''name'' = Inr ref_name"
proof -
  let ?created = "PDict (dict_set (dict_set
                    [(''owner_uuid'', dest_uuid), (''name'', ref_name),
                     (''description'', description), (''preserve_version'', PBool True)]
                    ''uuid'' (fresh_uuid api))
                    ''portable_data_hash'' (PStr ''d41d8cd98f00b204e9800998ecf8427e+0''))"
  let ?api' = "api\<lparr>collections := collections api @ [?created],
                    keep := (keep api)(fresh_uuid api := []),
                    next_uuid := Suc (next_uuid api)\<rparr>"
  from copy_reference_data_find_or_create [OF ru rc du rn] absent descr
  have first: "snd (copy_reference_data api reference_project destination_project) = snd (copy_into ?api' reference_input_collection ?created)"
    by (simp add: collections_create_def Let_def)
  from copy_into_table [of ?api' reference_input_collection ?created] obtain u where
    t: "collections (snd (copy_into ?api' reference_input_collection ?created))
          = map u (collections ?api')"
    and pres: "\<forall>r k. k \<noteq> ''portable_data_hash'' \<longrightarrow> py_getitem (u r) k = py_getitem r k"
    by blast
  have "collections (snd (copy_reference_data api reference_project destination_project)) = map u (collections api) @ [u ?created]"
    by (simp only: first t) simp
  moreover from pres have "py_getitem (u ?created) ''owner_uuid'' = Inr dest_uuid"
    and "py_getitem (u ?created) ''name'' = Inr ref_name" by simp_all
  ultimately show ?thesis by blast
qed


lemma map_of_del_key:
  "map_of (filter (\<lambda>p. fst p \<noteq> k) d) k' = (if k' = k then None else map_of d k')"
  by (induction d) auto

lemma keys_dict_set: "fst ` set (dict_set d k v) = insert k (fst ` set d)"
  by (induction d) auto

lemma py_getitem_dict: "py_getitem (PDict d) k = Inr v \<longleftrightarrow> map_of d k = Some v"
  by (simp split: option.splits)

lemma py_getitem_Inr_dict: "py_getitem r k = Inr v \<Longrightarrow> \<exists>d. r = PDict d \<and> map_of d k = Some v"
  by (cases r) (auto split: option.splits)

lemma find_SomeP: "find P xs = Some x \<Longrightarrow> P x \<and> x \<in> set xs"
  by (induction xs) (auto split: if_splits)

lemma find_app:
  "find P (xs @ ys) = (case find P xs of None \<Rightarrow> find P ys | Some x \<Rightarrow> Some x)"
  by (induction xs) auto

lemma api_get_found:
  "api_get table uuid = Inr r \<Longrightarrow> py_getitem r ''uuid'' = Inr uuid \<and> r \<in> set table"
  by (auto simp add: api_get_def split: option.splits dest: find_SomeP)

lemma api_get_append:
  "api_get table uuid = Inr r \<Longrightarrow> api_get (table @ added) uuid = Inr r"
  by (auto simp add: api_get_def find_app split: option.splits)

lemma api_get_error: "api_get table uuid = Inl e \<Longrightarrow> e = ApiError"
  by (auto simp add: api_get_def split: option.splits)

text \<open>The two outcomes of the search in \<open>copy_workflow\<close>.\<close>

lemma copy_workflow_find_or_create:
  assumes "api_get (workflows api) src_workflow = Inr (PDict d)"
    and "map_of d ''name'' = Some (PStr full_name)"
    and "py_getitem destination_project ''uuid'' = Inr dest_uuid"
  shows "copy_workflow api src_workflow destination_project =
           (case filter (\<lambda>r. list_all (filter_holds r)
                    [(''owner_uuid'', ''='', dest_uuid),
                     (''name'', ''like'', PStr (strip_version full_name @ ''%''))]) (workflows api) of
              first # _ \<Rightarrow> (Inr first, api)
            | [] \<Rightarrow> workflows_create api
                      (PDict (filter (\<lambda>p. fst p \<noteq> ''uuid'') (dict_set d ''owner_uuid'' dest_uuid))))"
proof -
  from api_get_found [OF assms(1)] have "map_of d ''uuid'' = Some src_workflow"
    by (simp split: option.splits)
  then have "''uuid'' \<in> fst ` set d" by (simp add: key_in_iff)
  then have "''uuid'' \<in> fst ` set (dict_set d ''owner_uuid'' dest_uuid)"
    by (simp add: keys_dict_set)
  with assms show ?thesis
    by (simp add: copy_workflow_def pthen_simps py_items_api_list Let_def split: list.splits)
qed

lemma copy_workflow_twice:
  assumes plain: "\<And>d full_name. api_get (workflows api) src_workflow = Inr (PDict d) \<Longrightarrow>
             map_of d ''name'' = Some (PStr full_name) \<Longrightarrow>
             CHR 0x5C \<notin> set (strip_version full_name)"
  shows "fst (copy_workflow (snd (copy_workflow api src_workflow destination_project))
          src_workflow destination_project)
     = fst (copy_workflow api src_workflow destination_project) \<and>
   workflows (snd (copy_workflow (snd (copy_workflow api src_workflow destination_project))
          src_workflow destination_project))
     = workflows (snd (copy_workflow api src_workflow destination_project)) \<and>
   collections (snd (copy_workflow (snd (copy_workflow api src_workflow destination_project))
          src_workflow destination_project))
     = collections api \<and>
   (\<exists>new. workflows (snd (copy_workflow api src_workflow destination_project))
            = workflows api @ new \<and> length new \<le> 1) \<and>
   (\<forall>v. fst (copy_workflow api src_workflow destination_project) = Inr v \<and> v \<noteq> PNone \<longrightarrow>
        v \<in> set (workflows (snd (copy_workflow api src_workflow destination_project))))"
proof (cases "api_get (workflows api) src_workflow")
  case (Inl e)
  then show ?thesis by (auto simp add: copy_workflow_def)
next
  case (Inr workflow)
  from api_get_found [OF Inr] obtain d where d: "workflow = PDict d"
    by (auto dest: py_getitem_Inr_dict)
  show ?thesis
  proof (cases "\<exists>full_name dest_uuid. map_of d ''name'' = Some (PStr full_name) \<and>
                  py_getitem destination_project ''uuid'' = Inr dest_uuid")
    case False
    have "\<exists>e. copy_workflow api src_workflow destination_project = (Inl e, api)"
    proof (cases "map_of d ''name''")
      case None
      with Inr d show ?thesis by (simp add: copy_workflow_def pthen_simps)
    next
      case (Some v)
      show ?thesis
      proof (cases "\<exists>full_name. v = PStr full_name")
        case True
        then obtain full_name where v: "v = PStr full_name" by blast
        with False Some obtain e where "py_getitem destination_project ''uuid'' = Inl e"
          by (cases "py_getitem destination_project ''uuid''") auto
        with Inr d Some v show ?thesis by (simp add: copy_workflow_def pthen_simps Let_def)
      next
        case False
        then have "py_as_str v = Inl TypeError" by (cases v) auto
        with Inr d Some show ?thesis by (simp add: copy_workflow_def pthen_simps)
      qed
    qed
    then obtain e where "copy_workflow api src_workflow destination_project = (Inl e, api)" ..
    then show ?thesis by simp
  next
    case True
    then obtain full_name dest_uuid where nm: "map_of d ''name'' = Some (PStr full_name)"
      and du: "py_getitem destination_project ''uuid'' = Inr dest_uuid" by blast
    let ?filters = "[(''owner_uuid'', ''='', dest_uuid),
                     (''name'', ''like'', PStr (strip_version full_name @ ''%''))]"
    let ?match = "\<lambda>r. list_all (filter_holds r) ?filters"
    note step = copy_workflow_find_or_create [OF _ nm du]
    show ?thesis
    proof (cases "filter ?match (workflows api)")
      case (Cons first rest)
      have "first \<in> set (filter ?match (workflows api))"
        by (simp only: Cons) simp
      then have mem: "first \<in> set (workflows api)" by simp
      from Cons step [of api src_workflow] Inr d
      have "copy_workflow api src_workflow destination_project = (Inr first, api)" by simp
      with mem show ?thesis by simp
    next
      case Nil
      let ?body = "filter (\<lambda>p. fst p \<noteq> ''uuid'') (dict_set d ''owner_uuid'' dest_uuid)"
      let ?created = "PDict (dict_set ?body ''uuid'' (fresh_uuid api))"
      let ?api1 = "api\<lparr>workflows := workflows api @ [?created],
                        next_uuid := Suc (next_uuid api)\<rparr>"
      from Nil step [of api src_workflow] Inr d
      have first: "copy_workflow api src_workflow destination_project = (Inr ?created, ?api1)"
        by (simp add: workflows_create_def Let_def)
      from strip_version_prefix obtain rest where
        "full_name = strip_version full_name @ rest" by blast
      moreover from plain Inr d nm have "CHR 0x5C \<notin> set (strip_version full_name)" by blast
      ultimately have "sql_like (strip_version full_name @ ''%'') full_name"
        using sql_like_own_prefix [of "strip_version full_name" rest] by simp
      with nm have "?match ?created"
        by (simp add: filter_holds_def map_of_dict_set map_of_del_key)
      with Nil have "filter ?match (workflows ?api1) = [?created]" by simp
      moreover from Inr d have "api_get (workflows ?api1) src_workflow = Inr (PDict d)"
        by (simp add: api_get_append)
      ultimately have "copy_workflow ?api1 src_workflow destination_project = (Inr ?created, ?api1)"
        using step [of ?api1 src_workflow] by simp
      with first show ?thesis by simp
    qed
  qed
qed


section \<open>Task state: exit code before state\<close>

text \<open>
  Claim C2. Whenever the execution record that \<open>get_task_state\<close> evaluates (the task's own,
  or the one a refresh has fetched) has an exit code equal to 0, the result is \<open>Complete\<close>,
  whatever the record's state field holds and even when it has none. More generally the
  result is decided in this order: exit code 0, exit code 1, state \<open>Running\<close>, state
  \<open>Cancelled\<close>, state \<open>Locked\<close> or \<open>Queued\<close>.
\<close>

theorem get_task_state_exit_code_first:
  assumes "refresh_task api task refresh = (task', Inr ())"
    and "py_getitem (container task') ''exit_code'' = Inr ec"
  shows "(py_eq ec (PInt 0) \<longrightarrow> get_task_state api task refresh = (task', Inr ''Complete'')) \<and>
         get_task_state api task refresh =
           (task',
            if py_eq ec (PInt 0) then Inr ''Complete''
            else if py_eq ec (PInt 1) then Inr ''Failed''
            else (case py_getitem (container task') ''state'' of
                    Inl e \<Rightarrow> Inl e
                  | Inr s \<Rightarrow>
                      if py_eq s (PStr ''Running'') then Inr ''Running''
                      else if py_eq s (PStr ''Cancelled'') then Inr ''Cancelled''
                      else if py_eq s (PStr ''Locked'') \<or> py_eq s (PStr ''Queued'') then Inr ''Queued''
                      else Inl (UnknownTaskState s)))"
  using assms
  by (simp add: get_task_state_def container_state_def pbind_simps py_in_def split: sum.splits)

text \<open>The record \<open>{exit_code: 0, state: "Running"}\<close>, fetched by a refresh, is \<open>Complete\<close>.\<close>

theorem get_task_state_exit_code_first_witness:
  "get_task_state
     \<lparr>collections = [], workflows = [],
      container_requests = [PDict [(''uuid'', PStr ''r1''), (''container_uuid'', PStr ''c1'')]],
      containers = [PDict [(''uuid'', PStr ''c1''), (''exit_code'', PInt 0),
                           (''state'', PStr ''Running'')]],
      keep = (\<lambda>u. []), next_uuid = 0, content_address = (\<lambda>files. ''pdh'')\<rparr>
     \<lparr>container_request = PDict [(''uuid'', PStr ''r1'')], container = PNone\<rparr> True
   = (\<lparr>container_request = PDict [(''uuid'', PStr ''r1''), (''container_uuid'', PStr ''c1'')],
       container = PDict [(''uuid'', PStr ''c1''), (''exit_code'', PInt 0),
                          (''state'', PStr ''Running'')]\<rparr>,
      Inr ''Complete'')"
  using get_task_state_exit_code_first
     [of "\<lparr>collections = [], workflows = [],
           container_requests = [PDict [(''uuid'', PStr ''r1''), (''container_uuid'', PStr ''c1'')]],
           containers = [PDict [(''uuid'', PStr ''c1''), (''exit_code'', PInt 0),
                                (''state'', PStr ''Running'')]],
           keep = (\<lambda>u. []), next_uuid = 0,
           content_address = (\<lambda>files. ''pdh'')\<rparr>"
         "\<lparr>container_request = PDict [(''uuid'', PStr ''r1'')], container = PNone\<rparr>"
         True
         "\<lparr>container_request = PDict [(''uuid'', PStr ''r1''), (''container_uuid'', PStr ''c1'')],
           container = PDict [(''uuid'', PStr ''c1''), (''exit_code'', PInt 0),
                              (''state'', PStr ''Running'')]\<rparr>"
         "PInt 0"]
  by (simp add: refresh_task_def api_get_def)

section \<open>Task state: unknown states\<close>

text \<open>
  Claim C8. When the execution record evaluated has an exit code that equals neither 0 nor 1
  and a state that is none of \<open>Queued\<close>, \<open>Locked\<close>, \<open>Running\<close>, \<open>Cancelled\<close>,
  \<open>get_task_state\<close> raises the exception that carries this state; it returns no value.
\<close>

theorem get_task_state_unknown_raises:
  assumes "refresh_task api task refresh = (task', Inr ())"
    and "py_getitem (container task') ''exit_code'' = Inr ec"
    and "\<not> py_eq ec (PInt 0)" and "\<not> py_eq ec (PInt 1)"
    and "py_getitem (container task') ''state'' = Inr s"
    and "\<not> py_in s [PStr ''Queued'', PStr ''Locked'', PStr ''Running'', PStr ''Cancelled'']"
  shows "get_task_state api task refresh = (task', Inl (UnknownTaskState s))"
  using assms
  by (auto simp add: get_task_state_def container_state_def pbind_simps py_in_def)

text \<open>A running container has no exit code yet (\<open>None\<close>); the state \<open>Complete\<close> is not one of the four.\<close>

theorem get_task_state_unknown_raises_witness:
  "get_task_state
     \<lparr>collections = [], workflows = [], container_requests = [], containers = [],
      keep = (\<lambda>u. []), next_uuid = 0, content_address = (\<lambda>files. ''pdh'')\<rparr>
     \<lparr>container_request = PDict [(''uuid'', PStr ''r1'')],
      container = PDict [(''exit_code'', PNone), (''state'', PStr ''Complete'')]\<rparr> False
   = (\<lparr>container_request = PDict [(''uuid'', PStr ''r1'')],
       container = PDict [(''exit_code'', PNone), (''state'', PStr ''Complete'')]\<rparr>,
      Inl (UnknownTaskState (PStr ''Complete'')))"
  using get_task_state_unknown_raises
     [of "\<lparr>collections = [], workflows = [], container_requests = [], containers = [],
           keep = (\<lambda>u. []), next_uuid = 0,
           content_address = (\<lambda>files. ''pdh'')\<rparr>"
         "\<lparr>container_request = PDict [(''uuid'', PStr ''r1'')],
           container = PDict [(''exit_code'', PNone), (''state'', PStr ''Complete'')]\<rparr>"
         False
         "\<lparr>container_request = PDict [(''uuid'', PStr ''r1'')],
           container = PDict [(''exit_code'', PNone), (''state'', PStr ''Complete'')]\<rparr>"
         PNone "PStr ''Complete''"]
  by (simp add: refresh_task_def py_in_def)

section \<open>The task handle and its mapping\<close>

text \<open>
  Claim C9. A task written to a mapping and read back is the same task: \<open>from_dict\<close> of
  \<open>to_dict\<close> gives back both records, and so does the JSON decoder on that mapping. The
  decoder turns a mapping into a task exactly when it has both keys \<open>container_request\<close> and
  \<open>container\<close> (taking their values); any other mapping is returned as it is.
\<close>

theorem task_roundtrip:
  "from_dict (to_dict t) = Inr t \<and>
   (case to_dict t of PDict d \<Rightarrow> arvados_task_decoder d = Inl t | _ \<Rightarrow> False) \<and>
   (map_of obj ''container_request'' = Some cr \<and> map_of obj ''container'' = Some c \<longrightarrow>
      arvados_task_decoder obj = Inl \<lparr>container_request = cr, container = c\<rparr>) \<and>
   (map_of obj ''container_request'' = None \<or> map_of obj ''container'' = None \<longrightarrow>
      arvados_task_decoder obj = Inr obj)"
  by (auto simp add: from_dict_def to_dict_def arvados_task_decoder_def pbind_simps key_in_iff
      split: option.splits)

theorem task_roundtrip_witness:
  "from_dict (to_dict \<lparr>container_request = PDict [(''uuid'', PStr ''r1'')], container = PNone\<rparr>)
     = Inr \<lparr>container_request = PDict [(''uuid'', PStr ''r1'')], container = PNone\<rparr> \<and>
   arvados_task_decoder [(''container'', PNone), (''x'', PInt 1),
                         (''container_request'', PDict [(''uuid'', PStr ''r1'')])]
     = Inl \<lparr>container_request = PDict [(''uuid'', PStr ''r1'')], container = PNone\<rparr> \<and>
   arvados_task_decoder [(''container'', PNone), (''x'', PInt 1)]
     = Inr [(''container'', PNone), (''x'', PInt 1)]"
  using task_roundtrip
          [of "\<lparr>container_request = PDict [(''uuid'', PStr ''r1'')], container = PNone\<rparr>"
              "[(''container'', PNone), (''x'', PInt 1),
                (''container_request'', PDict [(''uuid'', PStr ''r1'')])]"
              "PDict [(''uuid'', PStr ''r1'')]" PNone]
        task_roundtrip
          [of "\<lparr>container_request = PDict [(''uuid'', PStr ''r1'')], container = PNone\<rparr>"
              "[(''container'', PNone), (''x'', PInt 1)]" PNone PNone]
  by simp

section \<open>File references: the pass-through test\<close>

text \<open>
  Claim C10. A path that begins with the four characters \<open>http\<close> or \<open>keep\<close> is returned
  unchanged, whatever follows them (no \<open>://\<close> is needed), and whatever the server and the
  project hold: no collection is looked up.
\<close>

theorem get_file_id_literal_prefix:
  "prefix ''http'' file_path \<or> prefix ''keep'' file_path \<Longrightarrow>
   get_file_id api project file_path = Inr file_path"
  by (simp add: get_file_id_def)

text \<open>A relative path into a collection called \<open>keepsake\<close>, on a server with no collection at all.\<close>

theorem get_file_id_literal_prefix_witness:
  "prefix ''keep'' ''keepsake/a.txt'' \<and>
   get_file_id \<lparr>collections = [], workflows = [], container_requests = [], containers = [],
                 keep = (\<lambda>u. []), next_uuid = 0,
                 content_address = (\<lambda>files. ''pdh'')\<rparr> PNone ''keepsake/a.txt''
     = Inr ''keepsake/a.txt''"
  using get_file_id_literal_prefix
          [of "''keepsake/a.txt''"
              "\<lparr>collections = [], workflows = [], container_requests = [], containers = [],
                keep = (\<lambda>u. []), next_uuid = 0,
                content_address = (\<lambda>files. ''pdh'')\<rparr>" PNone]
  by simp

section \<open>File references: resolving a path\<close>

text \<open>
  Claim C6. A path that already is a reference (\<open>http://example/x\<close>) is returned unchanged.
  Any other path, read as the name of a collection followed by further segments (with or
  without a leading slash), is resolved in the project: when the project's first collection
  of that name has the content hash \<open>h\<close>, the result is \<open>keep:h/\<close> followed by the remaining
  segments joined by slashes; when the project has no collection of that name, the call
  raises the exception that carries the collection name and the project identifier.
\<close>

theorem get_file_id_resolves:
  assumes "\<not> prefix ''http'' file_path" and "\<not> prefix ''keep'' file_path"
    and "file_path = lead @ join ''/'' (collection_name # segments)"
    and "lead = ''/'' \<or> (lead = [] \<and> collection_name \<noteq> [])"
    and "\<forall>s \<in> set (collection_name # segments). CHR ''/'' \<notin> set s"
    and "py_getitem project ''uuid'' = Inr owner"
    and "found = filter (\<lambda>r. py_getitem r ''owner_uuid'' = Inr owner \<and>
                              py_getitem r ''name'' = Inr (PStr collection_name)) (collections api)"
  shows "get_file_id api project ''http://example/x'' = Inr ''http://example/x'' \<and>
         (\<forall>c cs h. found = c # cs \<and> py_getitem c ''portable_data_hash'' = Inr (PStr h) \<longrightarrow>
            get_file_id api project file_path = Inr (''keep:'' @ h @ ''/'' @ join ''/'' segments)) \<and>
         (found = [] \<longrightarrow>
            get_file_id api project file_path = Inl (CollectionNotFound collection_name owner))"
proof -
  have tree: "(case split_on (CHR ''/'') file_path of
                 [] \<Rightarrow> []
               | first # others \<Rightarrow> if first = [] then others else first # others)
              = collection_name # segments"
    using assms(3,4,5) split_on_join [of collection_name segments]
    by (auto simp add: split_on_join simp del: join.simps)
  show ?thesis
    using assms(1,2,6,7)
    by (auto simp add: get_file_id_def tree py_index_def pbind_simps Let_def
          py_items_api_list filter_holds_eq simp del: join.simps)
qed



text \<open>The path \<open>/coll1/sub/file.txt\<close>, in a project with and without the collection \<open>coll1\<close>.\<close>

theorem get_file_id_resolves_witness:
  "get_file_id
     \<lparr>collections = [PDict [(''uuid'', PStr ''c1''), (''owner_uuid'', PStr ''p1''),
                            (''name'', PStr ''coll1''), (''portable_data_hash'', PStr ''H'')]],
      workflows = [], container_requests = [], containers = [],
      keep = (\<lambda>u. []), next_uuid = 0, content_address = (\<lambda>files. ''pdh'')\<rparr>
     (PDict [(''uuid'', PStr ''p1'')]) ''/coll1/sub/file.txt''
     = Inr ''keep:H/sub/file.txt'' \<and>
   get_file_id
     \<lparr>collections = [], workflows = [], container_requests = [], containers = [],
      keep = (\<lambda>u. []), next_uuid = 0, content_address = (\<lambda>files. ''pdh'')\<rparr>
     (PDict [(''uuid'', PStr ''p1'')]) ''/coll1/sub/file.txt''
     = Inl (CollectionNotFound ''coll1'' (PStr ''p1''))"
proof -
  let ?c = "PDict [(''uuid'', PStr ''c1''), (''owner_uuid'', PStr ''p1''),
                   (''name'', PStr ''coll1''), (''portable_data_hash'', PStr ''H'')]"
  let ?full = "\<lparr>collections = [?c], workflows = [], container_requests = [], containers = [],
                keep = (\<lambda>u. []), next_uuid = 0,
                content_address = (\<lambda>files. ''pdh'')\<rparr>"
  let ?empty = "\<lparr>collections = [], workflows = [], container_requests = [], containers = [],
                 keep = (\<lambda>u. []), next_uuid = 0,
                 content_address = (\<lambda>files. ''pdh'')\<rparr>"
  let ?project = "PDict [(''uuid'', PStr ''p1'')]"
  have p1: "\<not> prefix ''http'' ''/coll1/sub/file.txt''" by simp
  have p2: "\<not> prefix ''keep'' ''/coll1/sub/file.txt''" by simp
  have p3: "''/coll1/sub/file.txt'' = ''/'' @ join ''/'' (''coll1'' # [''sub'', ''file.txt''])"
    by simp
  have p4: "''/'' = ''/'' \<or> (''/'' = [] \<and> ''coll1'' \<noteq> [])" by simp
  have p5: "\<forall>s \<in> set (''coll1'' # [''sub'', ''file.txt'']). CHR ''/'' \<notin> set s" by simp
  have p6: "py_getitem ?project ''uuid'' = Inr (PStr ''p1'')" by simp
  have p7: "[?c] = filter (\<lambda>r. py_getitem r ''owner_uuid'' = Inr (PStr ''p1'') \<and>
                               py_getitem r ''name'' = Inr (PStr ''coll1'')) (collections ?full)"
    by simp
  have p8: "[] = filter (\<lambda>r. py_getitem r ''owner_uuid'' = Inr (PStr ''p1'') \<and>
                              py_getitem r ''name'' = Inr (PStr ''coll1'')) (collections ?empty)"
    by simp
  have pdh: "py_getitem ?c ''portable_data_hash'' = Inr (PStr ''H'')" by simp
  from get_file_id_resolves [OF p1 p2 p3 p4 p5 p6 p7] pdh
  have a: "get_file_id ?full ?project ''/coll1/sub/file.txt''
             = Inr (''keep:'' @ ''H'' @ ''/'' @ join ''/'' [''sub'', ''file.txt''])"
    by blast
  from get_file_id_resolves [OF p1 p2 p3 p4 p5 p6 p8]
  have b: "get_file_id ?empty ?project ''/coll1/sub/file.txt''
             = Inl (CollectionNotFound ''coll1'' (PStr ''p1''))"
    by blast
  from a b show ?thesis by simp
qed


section \<open>Submission\<close>

text \<open>
  Claim C5, as the code has it. Once the parameter file is written, for a project and a
  workflow whose identifiers are strings: when the runner exits with status 0 and its decoded
  output has a non-empty line, the result is a task whose submission record holds the last
  non-empty line as its identifier and whose execution record is \<open>None\<close>; when the runner
  exits with another status, or cannot be run (\<open>IOError\<close>), the result is \<open>None\<close> and
  nothing is raised.
\<close>

theorem submit_task_outcomes:
  assumes "parameter_file env = Some parameter_file_name"
    and "py_getitem project ''uuid'' = Inr (PStr project_uuid)"
    and "py_getitem workflow ''uuid'' = Inr (PStr workflow_uuid)"
    and "cmd_str = [''arvados-cwl-runner'', ''--no-wait'', ''--defer-download'',
                    ''--varying-url-params=AWSAccessKeyId,Signature,Expires'',
                    ''--prefer-cached-downloads'', ''--debug'',
                    ''--project-uuid'', project_uuid, ''--name'', task_name,
                    workflow_uuid, parameter_file_name]"
  shows "(\<forall>runner_log l ls.
            check_output env cmd_str = Output runner_log \<and>
            filter (\<lambda>l. l \<noteq> []) (split_on (CHR 0x0A) runner_log) = l # ls \<longrightarrow>
            submit_task env task_name project workflow parameters =
              Inr (Some \<lparr>container_request = PDict [(''uuid'', PStr (last (l # ls)))],
                         container = PNone\<rparr>)) \<and>
         (\<forall>status out. check_output env cmd_str = CalledProcessError status out \<longrightarrow>
            submit_task env task_name project workflow parameters = Inr None) \<and>
         (check_output env cmd_str = RunnerIOError \<longrightarrow>
            submit_task env task_name project workflow parameters = Inr None)"
  using assms by (simp add: submit_task_def pbind_simps)

text \<open>
  The claim as stated fails in two places. A runner that exits with status 0 and prints
  nothing leaves no line to take: \<open>[-1]\<close> of the empty list raises \<open>IndexError\<close>. And an
  \<open>IOError\<close> while the parameter file is created or written is raised outside the
  \<open>try\<close> block, so it escapes the call.
\<close>

theorem submit_task_counterexample:
  "submit_task \<lparr>parameter_file = Some ''/tmp/tmpab12'', check_output = (\<lambda>cmd. Output [])\<rparr>
     ''job'' (PDict [(''uuid'', PStr ''p1'')]) (PDict [(''uuid'', PStr ''w1'')]) (PDict [])
     = Inl IndexError \<and>
   submit_task \<lparr>parameter_file = None, check_output = (\<lambda>cmd. CalledProcessError 1 ''failed'')\<rparr>
     ''job'' (PDict [(''uuid'', PStr ''p1'')]) (PDict [(''uuid'', PStr ''w1'')]) (PDict [])
     = Inl IOError"
  by (simp add: submit_task_def pbind_simps)

text \<open>A successful run, a run that exits with status 1, and a runner that cannot be started.\<close>

theorem submit_task_outcomes_witness:
  "submit_task \<lparr>parameter_file = Some ''/tmp/tmpab12'',
                 check_output = (\<lambda>cmd. Output (''INFO submitted'' @ [CHR 0x0A] @ ''zzzzz-xvhdp-1'' @ [CHR 0x0A]))\<rparr>
     ''job'' (PDict [(''uuid'', PStr ''p1'')]) (PDict [(''uuid'', PStr ''w1'')]) (PDict [])
     = Inr (Some \<lparr>container_request = PDict [(''uuid'', PStr ''zzzzz-xvhdp-1'')], container = PNone\<rparr>) \<and>
   submit_task \<lparr>parameter_file = Some ''/tmp/tmpab12'',
                 check_output = (\<lambda>cmd. CalledProcessError 1 ''failed'')\<rparr>
     ''job'' (PDict [(''uuid'', PStr ''p1'')]) (PDict [(''uuid'', PStr ''w1'')]) (PDict [])
     = Inr None \<and>
   submit_task \<lparr>parameter_file = Some ''/tmp/tmpab12'', check_output = (\<lambda>cmd. RunnerIOError)\<rparr>
     ''job'' (PDict [(''uuid'', PStr ''p1'')]) (PDict [(''uuid'', PStr ''w1'')]) (PDict [])
     = Inr None"
proof -
  let ?project = "PDict [(''uuid'', PStr ''p1'')]"
  let ?workflow = "PDict [(''uuid'', PStr ''w1'')]"
  let ?log = "''INFO submitted'' @ [CHR 0x0A] @ ''zzzzz-xvhdp-1'' @ [CHR 0x0A]"
  let ?ok = "\<lparr>parameter_file = Some ''/tmp/tmpab12'', check_output = (\<lambda>cmd. Output ?log)\<rparr>"
  let ?failed = "\<lparr>parameter_file = Some ''/tmp/tmpab12'',
                  check_output = (\<lambda>cmd. CalledProcessError 1 ''failed'')\<rparr>"
  let ?norun = "\<lparr>parameter_file = Some ''/tmp/tmpab12'', check_output = (\<lambda>cmd. RunnerIOError)\<rparr>"
  have p: "py_getitem ?project ''uuid'' = Inr (PStr ''p1'')" by simp
  have w: "py_getitem ?workflow ''uuid'' = Inr (PStr ''w1'')" by simp
  have lines: "filter (\<lambda>l. l \<noteq> []) (split_on (CHR 0x0A) ?log) = [''INFO submitted'', ''zzzzz-xvhdp-1'']"
    by simp
  have f1: "parameter_file ?ok = Some ''/tmp/tmpab12''" by simp
  have f2: "parameter_file ?failed = Some ''/tmp/tmpab12''" by simp
  have f3: "parameter_file ?norun = Some ''/tmp/tmpab12''" by simp
  have a: "submit_task ?ok ''job'' ?project ?workflow (PDict [])
             = Inr (Some \<lparr>container_request =
                             PDict [(''uuid'', PStr (last [''INFO submitted'', ''zzzzz-xvhdp-1'']))],
                          container = PNone\<rparr>)"
    using submit_task_outcomes [OF f1 p w refl, of "''job''" "PDict []"] lines by simp
  have b: "submit_task ?failed ''job'' ?project ?workflow (PDict []) = Inr None"
    using submit_task_outcomes [OF f2 p w refl, of "''job''" "PDict []"] by simp
  have c: "submit_task ?norun ''job'' ?project ?workflow (PDict []) = Inr None"
    using submit_task_outcomes [OF f3 p w refl, of "''job''" "PDict []"] by simp
  from a b c show ?thesis by simp
qed


section \<open>Copying all workflows\<close>

text \<open>
  Claim C1 says that \<open>copy_workflows\<close> clones every reference workflow whose name the
  destination lacks and returns the destination list with the new records appended. The code
  calls \<open>append\<close> on the response of the list call, which is a dict, not on its \<open>items\<close>:
  with one reference workflow \<open>Align\<close> and an empty destination project the call raises
  \<open>AttributeError\<close>, and the server is left without any new workflow.
\<close>

theorem copy_workflows_missing_workflow_raises:
  "copy_workflows
     \<lparr>collections = [],
      workflows = [PDict [(''uuid'', PStr ''wf1''), (''owner_uuid'', PStr ''ref''),
                          (''name'', PStr ''Align'')]],
      container_requests = [], containers = [], keep = (\<lambda>u. []), next_uuid = 0,
      content_address = (\<lambda>files. ''pdh'')\<rparr>
     (PDict [(''uuid'', PStr ''ref'')]) (PDict [(''uuid'', PStr ''dst'')])
   = (Inl (AttributeError ''append''),
      \<lparr>collections = [],
       workflows = [PDict [(''uuid'', PStr ''wf1''), (''owner_uuid'', PStr ''ref''),
                           (''name'', PStr ''Align'')]],
       container_requests = [], containers = [], keep = (\<lambda>u. []), next_uuid = 0,
       content_address = (\<lambda>files. ''pdh'')\<rparr>)"
  by (simp add: copy_workflows_def pthen_simps api_list_def py_items_def pbind_simps
        filter_holds_def py_in_def)


section \<open>Copying one workflow\<close>

text \<open>
  Claim C7 says that \<open>copy_workflow\<close> strips the version annotation, returns the first
  destination workflow whose name starts with the stripped name, and otherwise clones the
  source. The code sends the stripped name, followed by \<open>%\<close>, to the server as a \<open>like\<close>
  pattern without escaping it, so an underscore in the name matches any character. The
  source workflow \<open>rna_seq (a1b2c3)\<close> is stripped to \<open>rna_seq\<close>; the destination project
  holds only \<open>rna-seq\<close>, which does not start with \<open>rna_seq\<close>; the call returns that
  workflow and creates nothing.
\<close>

theorem copy_workflow_wildcard_match:
  "copy_workflow
     \<lparr>collections = [],
      workflows = [PDict [(''uuid'', PStr ''wf1''), (''owner_uuid'', PStr ''ref''),
                          (''name'', PStr ''rna_seq (a1b2c3)'')],
                   PDict [(''uuid'', PStr ''wf2''), (''owner_uuid'', PStr ''dst''),
                          (''name'', PStr ''rna-seq'')]],
      container_requests = [], containers = [], keep = (\<lambda>u. []), next_uuid = 0,
      content_address = (\<lambda>files. ''pdh'')\<rparr>
     (PStr ''wf1'') (PDict [(''uuid'', PStr ''dst'')])
   = (Inr (PDict [(''uuid'', PStr ''wf2''), (''owner_uuid'', PStr ''dst''),
                  (''name'', PStr ''rna-seq'')]),
      \<lparr>collections = [],
       workflows = [PDict [(''uuid'', PStr ''wf1''), (''owner_uuid'', PStr ''ref''),
                           (''name'', PStr ''rna_seq (a1b2c3)'')],
                    PDict [(''uuid'', PStr ''wf2''), (''owner_uuid'', PStr ''dst''),
                           (''name'', PStr ''rna-seq'')]],
       container_requests = [], containers = [], keep = (\<lambda>u. []), next_uuid = 0,
       content_address = (\<lambda>files. ''pdh'')\<rparr>)"
  by (simp add: copy_workflow_def api_get_def pthen_simps py_items_api_list filter_holds_def
        strip_version_def annotation_rest_def)


section \<open>The bulk copy and the reserved file names\<close>




text \<open>
  Where a source file meets a directory or a file of the destination, the path is not kept.
  A source file \<open>x\<close> goes into a directory \<open>x\<close> of the destination, as \<open>x/x\<close>. Below a file
  \<open>x\<close> of the destination the copy of \<open>x/y\<close> raises \<open>TypeError\<close>, which the loop does not
  catch: \<open>b.txt\<close> is not copied and nothing is saved.
\<close>

lemma collection_copy_into_directory:
  "collection_copy [\<lparr>stream_name = ''./x'', name = ''y'', data = ''old''\<rparr>] ''./x''
     [\<lparr>stream_name = ''.'', name = ''x'', data = ''new''\<rparr>] False
   = Inr [\<lparr>stream_name = ''./x'', name = ''y'', data = ''old''\<rparr>,
          \<lparr>stream_name = ''./x'', name = ''x'', data = ''new''\<rparr>]"
  by (simp add: collection_copy_def target_path_of_def is_file_def is_dir_def ancestors_def
        dirname_def basename_def Let_def)

lemma copy_files_below_a_file:
  "copy_files_from_source_dest_collection
     \<lparr>collections = [], workflows = [], container_requests = [], containers = [],
      keep = (\<lambda>u. if u = PStr ''src''
                   then [\<lparr>stream_name = ''./x'', name = ''y'', data = ''new''\<rparr>,
                         \<lparr>stream_name = ''.'', name = ''b.txt'', data = ''b''\<rparr>]
                   else if u = PStr ''dst''
                   then [\<lparr>stream_name = ''.'', name = ''x'', data = ''old''\<rparr>]
                   else []),
      next_uuid = 0, content_address = (\<lambda>files. ''pdh'')\<rparr>
     (PStr ''src'') (PStr ''dst'') False
   = (Inl TypeError,
     \<lparr>collections = [], workflows = [], container_requests = [], containers = [],
      keep = (\<lambda>u. if u = PStr ''src''
                   then [\<lparr>stream_name = ''./x'', name = ''y'', data = ''new''\<rparr>,
                         \<lparr>stream_name = ''.'', name = ''b.txt'', data = ''b''\<rparr>]
                   else if u = PStr ''dst''
                   then [\<lparr>stream_name = ''.'', name = ''x'', data = ''old''\<rparr>]
                   else []),
      next_uuid = 0, content_address = (\<lambda>files. ''pdh'')\<rparr>)"
  by (simp add: copy_files_from_source_dest_collection_def get_files_list_in_collection_def
        collection_copy_def target_path_of_def is_file_def is_dir_def ancestors_def dirname_def
        basename_def collection_save_def Let_def)


section \<open>Repeating a copy\<close>


text \<open>
  \<open>copy_workflow\<close> looks for the record that exists by sending the name as a \<open>like\<close>
  pattern. A backslash in the name makes the pattern miss the record that an earlier call
  has made under that very name: for a workflow whose name is \<open>qc\<close>, a backslash and
  \<open>v2\<close>, the second call makes a second record with the same name in the destination
  project.
\<close>

lemma copy_workflow_backslash_twice:
  "workflows (snd (copy_workflow (snd (copy_workflow
     \<lparr>collections = [],
      workflows = [PDict [(''uuid'', PStr ''wf1''), (''owner_uuid'', PStr ''ref''),
                          (''name'', PStr (''qc'' @ [CHR 0x5C] @ ''v2''))]],
      container_requests = [], containers = [], keep = (\<lambda>u. []), next_uuid = 0,
      content_address = (\<lambda>files. ''pdh'')\<rparr>
     (PStr ''wf1'') (PDict [(''uuid'', PStr ''dst'')])))
     (PStr ''wf1'') (PDict [(''uuid'', PStr ''dst'')])))
   = [PDict [(''uuid'', PStr ''wf1''), (''owner_uuid'', PStr ''ref''),
             (''name'', PStr (''qc'' @ [CHR 0x5C] @ ''v2''))],
      PDict [(''owner_uuid'', PStr ''dst''), (''name'', PStr (''qc'' @ [CHR 0x5C] @ ''v2'')),
             (''uuid'', PStr ''zzzzz-'')],
      PDict [(''owner_uuid'', PStr ''dst''), (''name'', PStr (''qc'' @ [CHR 0x5C] @ ''v2'')),
             (''uuid'', PStr ''zzzzz-0'')]]"
  by (simp add: copy_workflow_def api_get_def pthen_simps py_items_api_list filter_holds_def
        strip_version_def annotation_rest_def workflows_create_def fresh_uuid_def Let_def)


end
